theory Spec2Isabelle
  imports Complex_Main "HOL-Library.Multiset" "HOL-Library.List_Lexorder"
begin

section \<open>JavaScript strings\<close>

text \<open>
  A JavaScript string is a sequence of UTF-16 code units. Code units are kept as natural
  numbers; \<open>js\<close> turns a Latin-1 literal into such a sequence. The default
  \<open>Array.prototype.sort\<close> on strings compares code units lexicographically, which is
  the order of \<open>HOL-Library.List_Lexorder\<close> on \<open>nat list\<close>.
\<close>

type_synonym jstring = "nat list"

definition js :: "string \<Rightarrow> jstring" where
  "js s = map of_char s"

section \<open>Data splitter (split script, function main)\<close>

text \<open>
  A feature as the splitter reads it: the two properties it inspects, and everything else
  (the other properties and the geometry) as an opaque payload that is passed through.
  \<open>None\<close> stands for a property that is missing, \<open>null\<close> or \<open>undefined\<close>
  (also when \<open>properties\<close> itself is missing: the source reads through \<open>?.\<close>).
  A property that is present is a string, as the producer writes it and the type
  \<open>FProps\<close> of the application declares it, and every element of \<open>features\<close> is
  an object.
\<close>

record 'a raw_feature =
  raw_ags :: "jstring option"
  raw_id :: "jstring option"
  raw_rest :: 'a

text \<open>\<open>x || y\<close> on strings: the empty string is falsy, as a missing value is.\<close>

definition truthy :: "jstring option \<Rightarrow> bool" where
  "truthy v = (case v of None \<Rightarrow> False | Some s \<Rightarrow> s \<noteq> [])"

text \<open>\<open>(f.properties?.ags || f.properties?.id || '').toString()\<close>\<close>

definition or_else :: "jstring option \<Rightarrow> jstring option \<Rightarrow> jstring option" where
  "or_else x y = (if truthy x then x else y)"

definition ags_of :: "'a raw_feature \<Rightarrow> jstring" where
  "ags_of f =
     (case or_else (or_else (raw_ags f) (raw_id f)) (Some []) of
        None \<Rightarrow> []
      | Some s \<Rightarrow> s)"

text \<open>\<open>ags.slice(0,2)\<close>\<close>

definition state_of :: "'a raw_feature \<Rightarrow> jstring" where
  "state_of f = take 2 (ags_of f)"

text \<open>
  The \<open>Map\<close> named \<open>by\<close>: keys in insertion order, each with the array of its
  features. \<open>by_push\<close> is \<open>by.get(state).push(f)\<close>; it is \<open>None\<close> where
  \<open>by.get\<close> would be \<open>undefined\<close> and the call would throw.
\<close>

type_synonym 'a by_map = "(jstring \<times> 'a raw_feature list) list"

definition by_has :: "'a by_map \<Rightarrow> jstring \<Rightarrow> bool" where
  "by_has by k = (k \<in> set (map fst by))"

definition by_set_new :: "'a by_map \<Rightarrow> jstring \<Rightarrow> 'a by_map" where
  "by_set_new by k = by @ [(k, [])]"

fun by_push :: "jstring \<Rightarrow> 'a raw_feature \<Rightarrow> 'a by_map \<Rightarrow> 'a by_map option" where
  "by_push k f [] = None"
| "by_push k f ((k', fs) # rest) =
     (if k' = k then Some ((k', fs @ [f]) # rest)
      else map_option ((#) (k', fs)) (by_push k f rest))"

fun group_loop :: "'a by_map \<Rightarrow> 'a raw_feature list \<Rightarrow> 'a by_map option" where
  "group_loop by [] = Some by"
| "group_loop by (f # fs) =
     (let state = state_of f;
          by1 = (if \<not> by_has by state then by_set_new by state else by)
      in case by_push state f by1 of
           None \<Rightarrow> None
         | Some by2 \<Rightarrow> group_loop by2 fs)"

text \<open>The file name \<open>de-${code}.geojson\<close>, relative to the destination directory.\<close>

definition file_name :: "jstring \<Rightarrow> jstring" where
  "file_name code = js ''de-'' @ code @ js ''.geojson''"

text \<open>
  \<open>fs.writeFileSync(path.join(DEST_DIR, name), data)\<close>. After \<open>ensureDir\<close> the
  destination directory exists; it is taken to hold no subdirectory. The call refuses a
  path with a NUL code unit, and it fails with \<open>ENOENT\<close> when the name holds a path
  separator (the code unit 47), because the directory of the file does not exist; no call
  of the script creates one. Otherwise it writes the file.
\<close>

datatype error = TypeError | ENOENT | ERR_INVALID_ARG_VALUE

definition write_error :: "jstring \<Rightarrow> error option" where
  "write_error name =
     (if 0 \<in> set name then Some ERR_INVALID_ARG_VALUE
      else if 47 \<in> set name then Some ENOENT
      else None)"

text \<open>
  The second loop: one \<open>writeFileSync\<close> per code, in the order of \<open>codes\<close>. The
  result lists the calls that returned, each with the name it was given and the
  \<open>features\<close> of the collection it wrote (\<open>None\<close> when \<open>by.get(code)\<close> is
  \<open>undefined\<close>: the property is left out of the file, and reading its length throws
  next), and the exception that ended the loop, if one did. An exception is not caught:
  the script ends there, with exit code 1 and the later files unwritten.
\<close>

type_synonym 'a written = "(jstring \<times> 'a raw_feature list option) list"

fun write_loop :: "'a by_map \<Rightarrow> jstring list \<Rightarrow> 'a written \<times> error option" where
  "write_loop by [] = ([], None)"
| "write_loop by (code # codes) =
     (let features = map_of by code;
          name = file_name code
      in case write_error name of
           Some e \<Rightarrow> ([], Some e)
         | None \<Rightarrow>
             (case features of
                None \<Rightarrow> ([(name, None)], Some TypeError)
              | Some fs \<Rightarrow>
                  (case write_loop by codes of
                     (files, e) \<Rightarrow> ((name, Some fs) # files, e))))"

definition main :: "'a raw_feature list \<Rightarrow> 'a written \<times> error option" where
  "main features =
     (case group_loop [] features of
        None \<Rightarrow> ([], Some TypeError)
      | Some by \<Rightarrow> write_loop by (sort (map fst by)))"

text \<open>
  The partitions in memory when the first loop has ended, in the order in which the
  second loop visits them: each code with \<open>by.get(code)\<close>.
\<close>

definition split_parts ::
  "'a raw_feature list \<Rightarrow> (jstring \<times> 'a raw_feature list option) list option" where
  "split_parts features =
     (case group_loop [] features of
        None \<Rightarrow> None
      | Some by \<Rightarrow> Some (map (\<lambda>code. (code, map_of by code)) (sort (map fst by))))"

text \<open>The distinct 2-character keys of a collection, in ascending order.\<close>

definition keys_of :: "'a raw_feature list \<Rightarrow> jstring list" where
  "keys_of features = sort (remdups (map state_of features))"

text \<open>
  The files on disk. The name of a file on disk is the UTF-8 form of the path string, in
  which an unpaired surrogate code unit is replaced by U+FFFD (65533); two path strings
  that differ only there name the same file. File names are compared code unit by code
  unit (a case-sensitive file system). A later write to a name replaces the file. The
  directory is empty before the script runs.
\<close>

definition is_high :: "nat \<Rightarrow> bool" where
  "is_high c = (55296 \<le> c \<and> c \<le> 56319)"

definition is_low :: "nat \<Rightarrow> bool" where
  "is_low c = (56320 \<le> c \<and> c \<le> 57343)"

definition lone :: "nat \<Rightarrow> nat" where
  "lone c = (if is_high c \<or> is_low c then 65533 else c)"

fun disk_name :: "jstring \<Rightarrow> jstring" where
  "disk_name [] = []"
| "disk_name [c] = [lone c]"
| "disk_name (c # d # cs) =
     (if is_high c \<and> is_low d then c # d # disk_name cs else lone c # disk_name (d # cs))"

definition disk_of :: "'a written \<Rightarrow> (jstring \<rightharpoonup> 'a raw_feature list option)" where
  "disk_of files = foldl (\<lambda>disk (name, fc). disk(disk_name name \<mapsto> fc)) Map.empty files"

text \<open>
  Reading the partitions back from the disk, for the given codes in their order: the
  features of the file of each code, and nothing for a code whose file is missing or has
  no \<open>features\<close>.
\<close>

definition read_file ::
  "(jstring \<rightharpoonup> 'a raw_feature list option) \<Rightarrow> jstring \<Rightarrow> 'a raw_feature list" where
  "read_file disk code =
     (case disk (disk_name (file_name code)) of
        Some (Some fs) \<Rightarrow> fs
      | _ \<Rightarrow> [])"

definition reassemble ::
  "(jstring \<rightharpoonup> 'a raw_feature list option) \<Rightarrow> jstring list \<Rightarrow> 'a raw_feature list" where
  "reassemble disk cs = concat (map (read_file disk) cs)"

text \<open>
  A key whose file can be written under its own name: no NUL, no path separator, no
  unpaired surrogate.
\<close>

definition safe_key :: "jstring \<Rightarrow> bool" where
  "safe_key code = (0 \<notin> set code \<and> 47 \<notin> set code \<and> disk_name code = code)"

definition path_ok :: "jstring \<Rightarrow> bool" where
  "path_ok code = (write_error (file_name code) = None)"

text \<open>The exception of the first code, in the order of the loop, whose write fails.\<close>

definition abort_of :: "jstring list \<Rightarrow> error option" where
  "abort_of cs = (case dropWhile path_ok cs of [] \<Rightarrow> None | c # rest \<Rightarrow> write_error (file_name c))"

text \<open>The invariant of the first loop after the features \<open>xs\<close> have been seen.\<close>

definition grouped :: "'a by_map \<Rightarrow> 'a raw_feature list \<Rightarrow> bool" where
  "grouped by xs \<longleftrightarrow>
     distinct (map fst by) \<and> set (map fst by) = state_of ` set xs \<and>
     (\<forall>(c, fs) \<in> set by. fs = filter (\<lambda>f. state_of f = c) xs)"

definition ex_features :: "unit raw_feature list" where
  "ex_features =
     [\<lparr>raw_ags = Some (js ''09162000''), raw_id = Some (js ''09162000''), raw_rest = ()\<rparr>,
      \<lparr>raw_ags = None, raw_id = None, raw_rest = ()\<rparr>,
      \<lparr>raw_ags = Some (js ''01001000''), raw_id = None, raw_rest = ()\<rparr>,
      \<lparr>raw_ags = Some [], raw_id = Some (js ''09161000''), raw_rest = ()\<rparr>]"

text \<open>
  Two municipalities of which the second has an identifier that starts with a digit and a
  slash, two whose identifiers start with different unpaired surrogates, and one whose
  identifier starts with a NUL.
\<close>

definition ex_slash :: "unit raw_feature list" where
  "ex_slash =
     [\<lparr>raw_ags = Some (js ''01001000''), raw_id = None, raw_rest = ()\<rparr>,
      \<lparr>raw_ags = Some (js ''1/2''), raw_id = None, raw_rest = ()\<rparr>]"

definition ex_surrogates :: "unit raw_feature list" where
  "ex_surrogates =
     [\<lparr>raw_ags = Some [55296, 49], raw_id = None, raw_rest = ()\<rparr>,
      \<lparr>raw_ags = Some [55297, 49], raw_id = None, raw_rest = ()\<rparr>]"

definition ex_nul :: "unit raw_feature list" where
  "ex_nul = [\<lparr>raw_ags = Some [0, 49], raw_id = None, raw_rest = ()\<rparr>]"

section \<open>Data producer (fetch script, the loops of the main function)\<close>

text \<open>
  A property value as the producer reads it from the service's JSON. A JSON number is
  finite and is kept as a rational; \<open>JAbsent\<close> is a missing, \<open>null\<close> or
  \<open>undefined\<close> value, \<open>JOther\<close> any value that is neither a number nor a string.
\<close>

datatype jval = JAbsent | JNum rat | JStr jstring | JOther

text \<open>
  The properties of a municipality or county record of the service. The identifier and
  name fields are strings when present; \<open>None\<close> is an absent (\<open>undefined\<close>) field.
\<close>

record wfs_props =
  wfs_ags :: "jstring option"
  wfs_ars :: "jstring option"
  wfs_sdv_ars :: "jstring option"
  wfs_gen :: "jstring option"
  wfs_bez :: "jstring option"
  wfs_ewz :: jval
  wfs_kfl :: jval

record 'g wfs_feature =
  wfs_properties :: "wfs_props option"
  wfs_geometry :: 'g

datatype kind = Gemeinde | Ortsteil

record out_props =
  out_id :: jstring
  out_name :: "jstring option"
  out_county :: "jstring option"
  out_ags :: jstring
  out_pop :: "rat option"
  out_area_km2 :: "rat option"
  out_density :: "rat option"
  out_kind :: kind

record 'g out_feature =
  out_properties :: out_props
  out_geometry :: 'g

record kreis =
  kreis_name :: "jstring option"
  kreis_bez :: "jstring option"

text \<open>\<open>f.properties || {}\<close>\<close>

definition props_or_empty :: "'g wfs_feature \<Rightarrow> wfs_props" where
  "props_or_empty f =
     (case wfs_properties f of
        Some p \<Rightarrow> p
      | None \<Rightarrow> \<lparr>wfs_ags = None, wfs_ars = None, wfs_sdv_ars = None, wfs_gen = None,
                  wfs_bez = None, wfs_ewz = JAbsent, wfs_kfl = JAbsent\<rparr>)"

text \<open>\<open>String(x || '')\<close> and \<open>x || ''\<close> for a string or absent \<open>x\<close>.\<close>

definition str_or_empty :: "jstring option \<Rightarrow> jstring" where
  "str_or_empty x = (case or_else x (Some []) of None \<Rightarrow> [] | Some s \<Rightarrow> s)"

text \<open>\<open>s.padStart(n,'0')\<close>; 48 is the code unit of the digit zero.\<close>

definition pad_start :: "nat \<Rightarrow> jstring \<Rightarrow> jstring" where
  "pad_start n s = replicate (n - length s) 48 @ s"

text \<open>The template literal \<open>`${x}`\<close> of a string or absent \<open>x\<close>.\<close>

definition template :: "jstring option \<Rightarrow> jstring" where
  "template x = (case x of None \<Rightarrow> js ''undefined'' | Some s \<Rightarrow> s)"

text \<open>
  \<open>/kreisfrei/i.test(s)\<close>: a search for the pattern at any position, letters compared
  without case. Without the \<open>u\<close> flag a character outside ASCII never matches an ASCII
  letter, so the comparison folds the letters a to z only.
\<close>

definition ascii_upper :: "nat \<Rightarrow> nat" where
  "ascii_upper c = (if 97 \<le> c \<and> c \<le> 122 then c - 32 else c)"

fun starts_with_ci :: "jstring \<Rightarrow> jstring \<Rightarrow> bool" where
  "starts_with_ci [] s = True"
| "starts_with_ci (p # ps) [] = False"
| "starts_with_ci (p # ps) (c # cs) = (ascii_upper p = ascii_upper c \<and> starts_with_ci ps cs)"

fun test_ci :: "jstring \<Rightarrow> jstring \<Rightarrow> bool" where
  "test_ci pat [] = starts_with_ci pat []"
| "test_ci pat (c # cs) = (starts_with_ci pat (c # cs) \<or> test_ci pat cs)"

text \<open>The first loop: the \<open>Map\<close> named \<open>krsBy5\<close>, later entries replacing earlier ones.\<close>

fun krs_loop :: "(jstring \<rightharpoonup> kreis) \<Rightarrow> 'g wfs_feature list \<Rightarrow> (jstring \<rightharpoonup> kreis)" where
  "krs_loop krsBy5 [] = krsBy5"
| "krs_loop krsBy5 (f # fs) =
     (let p = props_or_empty f;
          ars = pad_start 5 (str_or_empty (wfs_ars p))
      in krs_loop (krsBy5(ars \<mapsto> \<lparr>kreis_name = wfs_gen p, kreis_bez = wfs_bez p\<rparr>)) fs)"

text \<open>
  Numbers of the script are \<open>rat option\<close>: \<open>None\<close> is any value for which
  \<open>Number.isFinite\<close> is false (\<open>null\<close>, \<open>NaN\<close>, an infinity); the script tests
  every number with \<open>Number.isFinite\<close> before it uses it. The built-in conversion
  \<open>Number\<close> of a string is a parameter \<open>to_number\<close> of the model, with \<open>None\<close>
  where the result is not finite. The quotient is the exact one; the script's is the
  nearest double.
\<close>

definition is_finite :: "rat option \<Rightarrow> bool" where
  "is_finite x = (x \<noteq> None)"

text \<open>\<open>s.replace(/,/g,'')\<close>; 44 is the code unit of the comma.\<close>

definition remove_commas :: "jstring \<Rightarrow> jstring" where
  "remove_commas s = filter (\<lambda>c. c \<noteq> 44) s"

text \<open>
  \<open>Number.isFinite(v) ? v : (typeof v === 'string' ? Number(v.replace(/,/g,'')) : null)\<close>
\<close>

definition read_number :: "(jstring \<Rightarrow> rat option) \<Rightarrow> jval \<Rightarrow> rat option" where
  "read_number to_number v =
     (case v of
        JNum r \<Rightarrow> Some r
      | JStr s \<Rightarrow> to_number (remove_commas s)
      | _ \<Rightarrow> None)"

text \<open>The ternary of the \<open>county\<close> property.\<close>

definition county_of :: "kreis option \<Rightarrow> jstring option \<Rightarrow> jstring option" where
  "county_of kreis gen =
     (case kreis of
        None \<Rightarrow> None
      | Some k \<Rightarrow>
          Some (if kreis_bez k = Some (js ''Kreisfreie Stadt'')
                   \<or> test_ci (js ''kreisfrei'') (str_or_empty (kreis_bez k))
                then template gen
                else str_or_empty (kreis_name k)))"

text \<open>The body of the second loop: the feature pushed for the municipality record \<open>f\<close>.\<close>

definition emit ::
  "(jstring \<Rightarrow> rat option) \<Rightarrow> (jstring \<rightharpoonup> kreis) \<Rightarrow> 'g wfs_feature \<Rightarrow> 'g out_feature" where
  "emit to_number krsBy5 f =
     (let p = props_or_empty f;
          ags = pad_start 8 (str_or_empty (wfs_ags p));
          ars12 = pad_start 12 (str_or_empty (or_else (wfs_ars p) (wfs_sdv_ars p)));
          ars5 = take 5 ars12;
          kreis = krsBy5 ars5;
          pop = read_number to_number (wfs_ewz p);
          area = read_number to_number (wfs_kfl p)
      in \<lparr>out_properties =
            \<lparr>out_id = ags,
             out_name = wfs_gen p,
             out_county = county_of kreis (wfs_gen p),
             out_ags = ags,
             out_pop = (if is_finite pop then pop else None),
             out_area_km2 = (if is_finite area then area else None),
             out_density =
               (if is_finite pop \<and> is_finite area \<and> 0 < the area
                then Some (the pop / the area) else None),
             out_kind = Gemeinde\<rparr>,
          out_geometry = wfs_geometry f\<rparr>)"

fun emit_loop ::
  "(jstring \<Rightarrow> rat option) \<Rightarrow> (jstring \<rightharpoonup> kreis) \<Rightarrow> 'g out_feature list \<Rightarrow>
     'g wfs_feature list \<Rightarrow> 'g out_feature list" where
  "emit_loop to_number krsBy5 out [] = out"
| "emit_loop to_number krsBy5 out (f # fs) =
     emit_loop to_number krsBy5 (out @ [emit to_number krsBy5 f]) fs"

text \<open>
  The two loops together: from the fetched county and municipality records to the
  features of the collection that is written.
\<close>

definition produce ::
  "(jstring \<Rightarrow> rat option) \<Rightarrow> 'g wfs_feature list \<Rightarrow> 'g wfs_feature list \<Rightarrow> 'g out_feature list" where
  "produce to_number krsFeatures gemFeatures =
     emit_loop to_number (krs_loop Map.empty krsFeatures) [] gemFeatures"

text \<open>The 5-character county key the second loop looks up for a municipality record.\<close>

definition ars5_of :: "'g wfs_feature \<Rightarrow> jstring" where
  "ars5_of f =
     (let p = props_or_empty f
      in take 5 (pad_start 12 (str_or_empty (or_else (wfs_ars p) (wfs_sdv_ars p)))))"

text \<open>
  An instance of the conversion for the examples: it reads a string of decimal digits,
  and the empty string as zero, as \<open>Number\<close> does; it is \<open>None\<close> elsewhere.
\<close>

definition digits_Number :: "jstring \<Rightarrow> rat option" where
  "digits_Number s =
     (if list_all (\<lambda>c. 48 \<le> c \<and> c \<le> 57) s
      then Some (of_nat (foldl (\<lambda>a c. 10 * a + (c - 48)) 0 s))
      else None)"

definition ex_krs :: "unit wfs_feature list" where
  "ex_krs =
     [\<lparr>wfs_properties = Some \<lparr>wfs_ags = None, wfs_ars = Some (js ''09162''),
          wfs_sdv_ars = None, wfs_gen = Some (js ''Muenchen''),
          wfs_bez = Some (js ''Kreisfreie Stadt''), wfs_ewz = JAbsent, wfs_kfl = JAbsent\<rparr>,
       wfs_geometry = ()\<rparr>]"

definition ex_gems :: "unit wfs_feature list" where
  "ex_gems =
     [\<lparr>wfs_properties = Some \<lparr>wfs_ags = Some (js ''1001000''),
          wfs_ars = Some (js ''010010000000''), wfs_sdv_ars = None,
          wfs_gen = Some (js ''Flensburg''), wfs_bez = Some (js ''Stadt''),
          wfs_ewz = JStr (js ''1,234''), wfs_kfl = JNum 2\<rparr>,
       wfs_geometry = ()\<rparr>,
      \<lparr>wfs_properties = Some \<lparr>wfs_ags = Some (js ''09162000''),
          wfs_ars = Some (js ''091620000000''), wfs_sdv_ars = None,
          wfs_gen = Some (js ''Muenchen''), wfs_bez = Some (js ''Stadt''),
          wfs_ewz = JNum 1500000, wfs_kfl = JStr (js ''n/a'')\<rparr>,
       wfs_geometry = ()\<rparr>]"

section \<open>Presentation application, Leaflet variant (App component)\<close>

subsection \<open>Features and the object store\<close>

text \<open>
  The properties object of a feature (type \<open>FProps\<close>; \<open>parent\<close> is declared by the
  other variant's \<open>FeatureProps\<close>). \<open>None\<close> is \<open>null\<close> or \<open>undefined\<close>. A number
  read from JSON is finite and is kept as a rational.
\<close>

record props =
  id_prop :: jstring
  name :: jstring
  parent :: "jstring option"
  county :: "jstring option"
  ags :: "jstring option"
  pop :: "rat option"
  area_km2 :: "rat option"
  density :: "rat option"
  kind :: kind
  rank :: "nat option"

text \<open>
  The features of a fetched collection are objects that the component state and every
  array built from it share: a fetched feature holds the address of its properties
  object in a store. The features a derived view creates (by object spread) are new
  objects, only read afterwards, and are kept as values.
\<close>

type_synonym store = "nat \<Rightarrow> props"

record 'g feature_ref =
  properties_at :: nat
  geometry_of :: 'g

record 'g gfeat =
  properties :: props
  geometry :: 'g

datatype color_mode = ByPop | ByDensity

record 'f app_state =
  gemeinden :: "'f list option"
  ortsteile :: "'f list option"
  query :: jstring
  showGemeinden :: bool
  showOrtsteile :: bool
  colorMode :: color_mode

text \<open>The initial values of the \<open>useState\<close> calls.\<close>

definition initial_state :: "'f app_state" where
  "initial_state =
     \<lparr>gemeinden = None, ortsteile = None, query = [], showGemeinden = True,
      showOrtsteile = False, colorMode = ByPop\<rparr>"

subsection \<open>Colours\<close>

definition COLORS :: "string list" where
  "COLORS = [''#7f0000'', ''#cc0000'', ''#ff66a3'', ''#cc5500'', ''#ff9900'',
             ''#ffff00'', ''#add8e6'', ''#0000ff'', ''#90ee90'', ''#008000'']"

text \<open>\<open>x ?? d\<close> on numbers.\<close>

definition nullish :: "rat option \<Rightarrow> rat \<Rightarrow> rat" where
  "nullish x d = (case x of None \<Rightarrow> d | Some v \<Rightarrow> v)"

definition colorForPop :: "rat option \<Rightarrow> string" where
  "colorForPop pop_arg =
     (let p = nullish pop_arg (-1) in
      if p < 0 then ''#cccccc''
      else if p \<le> 5000 then COLORS ! 0
      else if p \<le> 10000 then COLORS ! 1
      else if p \<le> 20000 then COLORS ! 2
      else if p \<le> 30000 then COLORS ! 3
      else if p \<le> 40000 then COLORS ! 4
      else if p \<le> 50000 then COLORS ! 5
      else if p \<le> 60000 then COLORS ! 6
      else if p \<le> 80000 then COLORS ! 7
      else if p \<le> 100000 then COLORS ! 8
      else COLORS ! 9)"

text \<open>
  The band of a population, from the breakpoint table of the specification: the number
  of breakpoints strictly below the value.
\<close>

definition breakpoints :: "rat list" where
  "breakpoints = [5000, 10000, 20000, 30000, 40000, 50000, 60000, 80000, 100000]"

definition band :: "rat \<Rightarrow> nat" where
  "band p = length (filter (\<lambda>b. b < p) breakpoints)"

subsection \<open>Loading (the first effect)\<close>

text \<open>
  A settled promise. \<open>then_p\<close> is \<open>.then\<close> with a handler that returns a value or a
  promise (a handler that throws returns \<open>Rejected\<close>), \<open>catch_p\<close> is \<open>.catch\<close> with
  a handler that returns a value, \<open>promise_all\<close> is \<open>Promise.all\<close>: its results
  are in the order of its arguments.
\<close>

datatype 'a promise = Rejected | Fulfilled 'a

definition then_p :: "'a promise \<Rightarrow> ('a \<Rightarrow> 'b promise) \<Rightarrow> 'b promise" where
  "then_p p h = (case p of Rejected \<Rightarrow> Rejected | Fulfilled v \<Rightarrow> h v)"

definition catch_p :: "'a promise \<Rightarrow> 'a \<Rightarrow> 'a promise" where
  "catch_p p v = (case p of Rejected \<Rightarrow> Fulfilled v | Fulfilled w \<Rightarrow> Fulfilled w)"

fun promise_all :: "'a promise list \<Rightarrow> 'a list promise" where
  "promise_all [] = Fulfilled []"
| "promise_all (p # ps) =
     then_p p (\<lambda>v. then_p (promise_all ps) (\<lambda>vs. Fulfilled (v # vs)))"

text \<open>
  A response: its \<open>ok\<close> flag and its body, \<open>None\<close> when the body is not JSON (then
  \<open>r.json()\<close> rejects) and the JSON value otherwise. A JSON value of the model is
  \<open>null\<close> or a feature collection, kept as the array of its features. The network is
  a function from the URL to the settled promise \<open>fetch\<close> returns for it.
\<close>

datatype 'f json_value = JsonNull | FeatureCollection "'f list"

record 'f response =
  ok :: bool
  body :: "'f json_value option"

type_synonym 'f network = "jstring \<Rightarrow> 'f response promise"

definition json :: "'f response \<Rightarrow> 'f json_value promise" where
  "json r = (case body r of None \<Rightarrow> Rejected | Some v \<Rightarrow> Fulfilled v)"

definition codes :: "jstring list" where
  "codes = map js [''01'', ''02'', ''03'', ''04'', ''05'', ''06'', ''07'', ''08'',
                   ''09'', ''10'', ''11'', ''12'', ''13'', ''14'', ''15'', ''16'']"

definition chunk_url :: "jstring \<Rightarrow> jstring" where
  "chunk_url c = js ''/data/gemeinden-split/de-'' @ c @ js ''.geojson''"

definition ortsteile_url :: jstring where
  "ortsteile_url = js ''/data/ortsteile.geojson''"

text \<open>
  \<open>fetch(url).then(r => r.ok ? r.json() : empty).catch(() => empty)\<close>, the promise
  of one chunk.
\<close>

definition chunk_promise :: "'f network \<Rightarrow> jstring \<Rightarrow> 'f json_value promise" where
  "chunk_promise net c =
     catch_p
       (then_p (net (chunk_url c)) (\<lambda>r. if ok r then json r else Fulfilled (FeatureCollection [])))
       (FeatureCollection [])"

text \<open>
  \<open>parts.flatMap(p => p.features)\<close>: reading \<open>features\<close> of \<open>null\<close> throws
  (\<open>None\<close>).
\<close>

fun flat_features :: "'f json_value list \<Rightarrow> 'f list option" where
  "flat_features [] = Some []"
| "flat_features (p # parts) =
     (case p of
        JsonNull \<Rightarrow> None
      | FeatureCollection fs \<Rightarrow> map_option ((@) fs) (flat_features parts))"

text \<open>
  A state setter called with a parsed value: \<open>null\<close> is the absent collection of the
  state.
\<close>

definition loaded :: "'f json_value \<Rightarrow> 'f list option" where
  "loaded d = (case d of JsonNull \<Rightarrow> None | FeatureCollection fs \<Rightarrow> Some fs)"

text \<open>
  The two promise chains of the effect. The value of a chain is the state update its last
  handler makes; a chain that ends \<open>Rejected\<close> makes none and is an unhandled rejection.
  The last handler of the first chain has no rejection handler after it.
\<close>

definition gemeinden_chain :: "'f network \<Rightarrow> ('f app_state \<Rightarrow> 'f app_state) promise" where
  "gemeinden_chain net =
     then_p (promise_all (map (chunk_promise net) codes))
       (\<lambda>parts. case flat_features parts of
                   None \<Rightarrow> Rejected
                 | Some all_features \<Rightarrow> Fulfilled (\<lambda>st. st\<lparr>gemeinden := Some all_features\<rparr>))"

definition ortsteile_chain :: "'f network \<Rightarrow> ('f app_state \<Rightarrow> 'f app_state) promise" where
  "ortsteile_chain net =
     catch_p
       (then_p (then_p (net ortsteile_url) json)
          (\<lambda>d. Fulfilled (\<lambda>st. st\<lparr>ortsteile := loaded d\<rparr>)))
       (\<lambda>st. st)"

definition settle :: "('s \<Rightarrow> 's) promise \<Rightarrow> 's \<times> nat \<Rightarrow> 's \<times> nat" where
  "settle p sn =
     (case p of
        Rejected \<Rightarrow> (fst sn, Suc (snd sn))
      | Fulfilled upd \<Rightarrow> (upd (fst sn), snd sn))"

text \<open>
  The state after both chains have settled, and the number of unhandled rejections.
\<close>

definition load :: "'f network \<Rightarrow> 'f app_state \<Rightarrow> 'f app_state \<times> nat" where
  "load net st = settle (ortsteile_chain net) (settle (gemeinden_chain net) (st, 0))"

subsection \<open>The ranked sequence (\<open>combined\<close>)\<close>

text \<open>
  \<open>Array.prototype.sort\<close> with a comparison function: the sort is stable, and an
  element goes before another when the function is negative for them. The model is the
  stable insertion sort; for a consistent comparison function every conforming sort
  returns the same array.
\<close>

fun insort_cmp :: "('a \<Rightarrow> 'a \<Rightarrow> rat) \<Rightarrow> 'a \<Rightarrow> 'a list \<Rightarrow> 'a list" where
  "insort_cmp cmp x [] = [x]"
| "insort_cmp cmp x (y # ys) =
     (if cmp x y \<le> 0 then x # y # ys else y # insort_cmp cmp x ys)"

definition js_sort :: "('a \<Rightarrow> 'a \<Rightarrow> rat) \<Rightarrow> 'a list \<Rightarrow> 'a list" where
  "js_sort cmp xs = foldr (insort_cmp cmp) xs []"

text \<open>
  The loop "Recompute density if missing": \<open>p\<close> is the properties object of the fetched
  feature itself, and the assignment writes to it. \<open>Number.isFinite\<close> of a number or
  \<open>null\<close> is \<open>is_finite\<close>.
\<close>

fun density_loop :: "store \<Rightarrow> 'g feature_ref list \<Rightarrow> store" where
  "density_loop h [] = h"
| "density_loop h (f # arr) =
     (let p = h (properties_at f) in
      density_loop
        (if density p = None \<and> is_finite (pop p) \<and> is_finite (area_km2 p) \<and> 0 < the (area_km2 p)
         then h(properties_at f := p\<lparr>density := Some (the (pop p) / the (area_km2 p))\<rparr>)
         else h)
        arr)"

text \<open>The comparison function of the sort: \<open>pb - pa\<close>.\<close>

definition cmp_pop_desc :: "store \<Rightarrow> 'g feature_ref \<Rightarrow> 'g feature_ref \<Rightarrow> rat" where
  "cmp_pop_desc h a b =
     (let pa = nullish (pop (h (properties_at a))) (-1);
          pb = nullish (pop (h (properties_at b))) (-1)
      in pb - pa)"

text \<open>
  The \<open>map\<close> with the counter \<open>rank\<close>: each result is a new feature with a new
  properties object.
\<close>

fun rank_loop :: "store \<Rightarrow> nat \<Rightarrow> 'g feature_ref list \<Rightarrow> 'g gfeat list" where
  "rank_loop h r [] = []"
| "rank_loop h r (f # fs) =
     (let p = h (properties_at f) in
      if is_finite (pop p)
      then \<lparr>properties = p\<lparr>rank := Some r\<rparr>, geometry = geometry_of f\<rparr> # rank_loop h (r + 1) fs
      else \<lparr>properties = p\<lparr>rank := None\<rparr>, geometry = geometry_of f\<rparr> # rank_loop h r fs)"

definition merged :: "'g feature_ref app_state \<Rightarrow> 'g feature_ref list" where
  "merged st =
     (case gemeinden st of None \<Rightarrow> [] | Some fs \<Rightarrow> fs) @
     (case ortsteile st of None \<Rightarrow> [] | Some fs \<Rightarrow> fs)"

text \<open>The memo \<open>combined\<close>: the store it leaves, and the array it returns.\<close>

definition combined :: "store \<Rightarrow> 'g feature_ref app_state \<Rightarrow> store \<times> 'g gfeat list" where
  "combined h st =
     (let arr = merged st;
          h' = density_loop h arr;
          sorted = js_sort (cmp_pop_desc h') arr
      in (h', rank_loop h' 1 sorted))"

definition gemeindenOnly :: "store \<Rightarrow> 'g feature_ref app_state \<Rightarrow> 'g gfeat list option" where
  "gemeindenOnly h st =
     (if gemeinden st = None then None
      else Some (filter (\<lambda>f. kind (properties f) = Gemeinde) (snd (combined h st))))"

definition ortsteileOnly :: "store \<Rightarrow> 'g feature_ref app_state \<Rightarrow> 'g gfeat list option" where
  "ortsteileOnly h st =
     (if ortsteile st = None then None
      else Some (filter (\<lambda>f. kind (properties f) = Ortsteil) (snd (combined h st))))"

subsection \<open>The searchable list (\<open>listItems\<close>) and the map layers\<close>

text \<open>
  The string functions of \<open>norm\<close>. Their Unicode tables are given for Basic Latin, the
  Latin-1 Supplement and the combining marks up to U+036F; a code unit outside these
  ranges is left as it is. \<open>toLowerCase\<close> maps A to Z and the Latin-1 capitals
  U+00C0 to U+00DE (without the multiplication sign U+00D7).
\<close>

definition to_lower_unit :: "nat \<Rightarrow> nat" where
  "to_lower_unit c =
     (if (65 \<le> c \<and> c \<le> 90) \<or> (192 \<le> c \<and> c \<le> 222 \<and> c \<noteq> 215) then c + 32 else c)"

definition toLowerCase :: "jstring \<Rightarrow> jstring" where
  "toLowerCase s = map to_lower_unit s"

text \<open>
  Canonical decomposition of the Latin-1 letters: the base letter and the combining mark
  of the capitals U+00C0 to U+00DD by their offset from U+00C0 (the small letters
  U+00E0 to U+00FD decompose alike, with the small base letter), and U+00FF. The letters
  AE, ETH, O with stroke, THORN and sharp s have no decomposition.
\<close>

definition latin1_decomposition :: "(nat \<times> nat \<times> nat) list" where
  "latin1_decomposition =
     [(0, 65, 768), (1, 65, 769), (2, 65, 770), (3, 65, 771), (4, 65, 776), (5, 65, 778),
      (7, 67, 807),
      (8, 69, 768), (9, 69, 769), (10, 69, 770), (11, 69, 776),
      (12, 73, 768), (13, 73, 769), (14, 73, 770), (15, 73, 776),
      (17, 78, 771),
      (18, 79, 768), (19, 79, 769), (20, 79, 770), (21, 79, 771), (22, 79, 776),
      (25, 85, 768), (26, 85, 769), (27, 85, 770), (28, 85, 776),
      (29, 89, 769)]"

definition nfd_unit :: "nat \<Rightarrow> jstring" where
  "nfd_unit c =
     (if 192 \<le> c \<and> c < 224 then
        (case map_of latin1_decomposition (c - 192) of
           Some (b, mark) \<Rightarrow> [b, mark]
         | None \<Rightarrow> [c])
      else if 224 \<le> c \<and> c < 255 then
        (case map_of latin1_decomposition (c - 224) of
           Some (b, mark) \<Rightarrow> [b + 32, mark]
         | None \<Rightarrow> [c])
      else if c = 255 then [121, 776]
      else [c])"

definition normalize_NFD :: "jstring \<Rightarrow> jstring" where
  "normalize_NFD s = concat (map nfd_unit s)"

text \<open>
  The property \<open>Diacritic\<close>: circumflex, grave, diaeresis, macron, acute, middle dot and
  cedilla of Latin-1, the modifier letters U+02B0 to U+02FF and the combining marks
  U+0300 to U+034E, U+0350 to U+0357 and U+035D to U+0362.
\<close>

definition is_diacritic :: "nat \<Rightarrow> bool" where
  "is_diacritic c =
     (c \<in> set [94, 96, 168, 175, 180, 183, 184] \<or> (688 \<le> c \<and> c \<le> 846)
      \<or> (848 \<le> c \<and> c \<le> 855) \<or> (861 \<le> c \<and> c \<le> 866))"

text \<open>\<open>s.replace(/c/g, r)\<close> for a pattern of one code unit.\<close>

definition replace_unit :: "nat \<Rightarrow> jstring \<Rightarrow> jstring \<Rightarrow> jstring" where
  "replace_unit c r s = concat (map (\<lambda>d. if d = c then r else [d]) s)"

text \<open>
  \<open>norm\<close>: lower case, decomposition, removal of the diacritics, then the four
  replacements of a-umlaut (228), o-umlaut (246), u-umlaut (252) and sharp s (223).
\<close>

definition norm :: "jstring \<Rightarrow> jstring" where
  "norm s =
     replace_unit 223 (js ''ss'')
       (replace_unit 252 (js ''ue'')
          (replace_unit 246 (js ''oe'')
             (replace_unit 228 (js ''ae'')
                (filter (\<lambda>c. \<not> is_diacritic c) (normalize_NFD (toLowerCase s))))))"

text \<open>\<open>hay.includes(needle)\<close>\<close>

fun starts_with :: "jstring \<Rightarrow> jstring \<Rightarrow> bool" where
  "starts_with [] hay = True"
| "starts_with (n # ns) [] = False"
| "starts_with (n # ns) (c # cs) = (n = c \<and> starts_with ns cs)"

fun js_includes :: "jstring \<Rightarrow> jstring \<Rightarrow> bool" where
  "js_includes [] needle = starts_with needle []"
| "js_includes (c # cs) needle = (starts_with needle (c # cs) \<or> js_includes cs needle)"

text \<open>\<open>s.trim()\<close>: white space and line terminators are removed at both ends.\<close>

definition is_space :: "nat \<Rightarrow> bool" where
  "is_space c =
     (c \<in> set [9, 10, 11, 12, 13, 32, 160, 5760, 8232, 8233, 8239, 8287, 12288, 65279]
      \<or> (8192 \<le> c \<and> c \<le> 8202))"

definition trim :: "jstring \<Rightarrow> jstring" where
  "trim s = rev (dropWhile is_space (rev (dropWhile is_space s)))"

text \<open>\<open>m\<close> (with the query as an argument), and the predicate of the filter.\<close>

definition m_includes :: "jstring \<Rightarrow> jstring \<Rightarrow> bool" where
  "m_includes q s = js_includes (norm s) (norm q)"

definition matches :: "jstring \<Rightarrow> 'g gfeat \<Rightarrow> bool" where
  "matches q f =
     (let p = properties f in
      m_includes q (name p) \<or> (truthy (county p) \<and> m_includes q (the (county p)))
        \<or> (truthy (ags p) \<and> m_includes q (the (ags p))))"

definition cmp_list :: "'g gfeat \<Rightarrow> 'g gfeat \<Rightarrow> rat" where
  "cmp_list a b = nullish (pop (properties b)) (-1) - nullish (pop (properties a)) (-1)"

definition list_base :: "store \<Rightarrow> 'g feature_ref app_state \<Rightarrow> 'g gfeat list" where
  "list_base h st =
     (if showGemeinden st
      then (case gemeindenOnly h st of None \<Rightarrow> [] | Some fs \<Rightarrow> fs)
      else (case ortsteileOnly h st of None \<Rightarrow> [] | Some fs \<Rightarrow> fs))"

definition listItems :: "store \<Rightarrow> 'g feature_ref app_state \<Rightarrow> 'g gfeat list" where
  "listItems h st =
     (let base = list_base h st;
          filtered = (if length (trim (query st)) = 0 then base
                      else filter (matches (query st)) base)
      in js_sort cmp_list filtered)"

text \<open>
  The two layers of the map: \<open>showGemeinden && gemeindenOnly && ...\<close> renders the
  collection, and nothing otherwise.
\<close>

definition gemeinden_layer :: "store \<Rightarrow> 'g feature_ref app_state \<Rightarrow> 'g gfeat list option" where
  "gemeinden_layer h st = (if showGemeinden st then gemeindenOnly h st else None)"

definition ortsteile_layer :: "store \<Rightarrow> 'g feature_ref app_state \<Rightarrow> 'g gfeat list option" where
  "ortsteile_layer h st = (if showOrtsteile st then ortsteileOnly h st else None)"

text \<open>The handlers of the two switches and of the input field.\<close>

definition setShowGemeinden :: "bool \<Rightarrow> 'f app_state \<Rightarrow> 'f app_state" where
  "setShowGemeinden v st = st\<lparr>showGemeinden := v\<rparr>"

definition setShowOrtsteile :: "bool \<Rightarrow> 'f app_state \<Rightarrow> 'f app_state" where
  "setShowOrtsteile v st = st\<lparr>showOrtsteile := v\<rparr>"

definition setQuery :: "jstring \<Rightarrow> 'f app_state \<Rightarrow> 'f app_state" where
  "setQuery q st = st\<lparr>query := q\<rparr>"

section \<open>Presentation application, MapLibre variant (App component)\<close>

text \<open>
  The state is that of the other variant without the colour mode, and both switches start
  enabled.
\<close>

definition ml_initial_state :: "'f app_state" where
  "ml_initial_state =
     \<lparr>gemeinden = None, ortsteile = None, query = [], showGemeinden = True,
      showOrtsteile = True, colorMode = ByPop\<rparr>"

subsection \<open>Colours\<close>

text \<open>
  \<open>colorExpr\<close> returns a style expression \<open>["step", ["get", "pop"], c0, s1, c1, ...]\<close>.
  The map library evaluates it for each feature (style specification, operator
  \<open>step\<close>): the input must be a number; the result is the output of the last stop
  that is less than or equal to the input, and the first output when the input is less
  than the first stop. \<open>None\<close> is a failed evaluation, for an input that is not a number.
\<close>

datatype style_expr = Step string string "(rat \<times> string) list"

definition colorExpr :: style_expr where
  "colorExpr =
     Step ''pop'' ''#7f0000''
       [(5000, ''#cc0000''), (10000, ''#ff66a3''), (20000, ''#cc5500''), (30000, ''#ff9900''),
        (40000, ''#ffff00''), (50000, ''#add8e6''), (60000, ''#0000ff''), (80000, ''#90ee90''),
        (100000, ''#008000'')]"

fun step_output :: "string \<Rightarrow> (rat \<times> string) list \<Rightarrow> rat \<Rightarrow> string" where
  "step_output out [] v = out"
| "step_output out ((stop, out') # stops) v =
     (if v < stop then out else step_output out' stops v)"

fun evaluate :: "style_expr \<Rightarrow> rat option \<Rightarrow> string option" where
  "evaluate (Step prop out stops) None = None"
| "evaluate (Step prop out stops) (Some v) = Some (step_output out stops v)"

text \<open>The fill colour of a feature: the expression on its property \<open>pop\<close>.\<close>

definition ml_fill_color :: "props \<Rightarrow> string option" where
  "ml_fill_color p = evaluate colorExpr (pop p)"

subsection \<open>Loading\<close>

definition gemeinden_url :: jstring where
  "gemeinden_url = js ''/data/gemeinden.geojson''"

text \<open>\<open>fetch(url).then((r) => r.json()).then((d) => setGemeinden(d))\<close>, and the same
  for the districts.\<close>

definition ml_gemeinden_chain :: "'f network \<Rightarrow> ('f app_state \<Rightarrow> 'f app_state) promise" where
  "ml_gemeinden_chain net =
     then_p (then_p (net gemeinden_url) json)
       (\<lambda>d. Fulfilled (\<lambda>st. st\<lparr>gemeinden := loaded d\<rparr>))"

definition ml_ortsteile_chain :: "'f network \<Rightarrow> ('f app_state \<Rightarrow> 'f app_state) promise" where
  "ml_ortsteile_chain net =
     then_p (then_p (net ortsteile_url) json)
       (\<lambda>d. Fulfilled (\<lambda>st. st\<lparr>ortsteile := loaded d\<rparr>))"

definition ml_load :: "'f network \<Rightarrow> 'f app_state \<Rightarrow> 'f app_state \<times> nat" where
  "ml_load net st = settle (ml_ortsteile_chain net) (settle (ml_gemeinden_chain net) (st, 0))"

subsection \<open>The ranked sequence and the list\<close>

text \<open>The comparison function of the sort.\<close>

definition ml_cmp :: "'g gfeat \<Rightarrow> 'g gfeat \<Rightarrow> rat" where
  "ml_cmp a b =
     (let pa = nullish (pop (properties a)) (-1);
          pb = nullish (pop (properties b)) (-1)
      in if pa = -1 \<and> pb = -1 then 0
         else if pa = -1 then 1
         else if pb = -1 then -1
         else pa - pb)"

text \<open>\<open>f.properties.pop ? rank++ : undefined\<close>: zero is falsy, as \<open>null\<close> is.\<close>

definition truthy_number :: "rat option \<Rightarrow> bool" where
  "truthy_number x = (case x of None \<Rightarrow> False | Some v \<Rightarrow> v \<noteq> 0)"

fun ml_rank_loop :: "nat \<Rightarrow> 'g gfeat list \<Rightarrow> 'g gfeat list" where
  "ml_rank_loop r [] = []"
| "ml_rank_loop r (f # fs) =
     (if truthy_number (pop (properties f))
      then f\<lparr>properties := (properties f)\<lparr>rank := Some r\<rparr>\<rparr> # ml_rank_loop (r + 1) fs
      else f\<lparr>properties := (properties f)\<lparr>rank := None\<rparr>\<rparr> # ml_rank_loop r fs)"

text \<open>
  The first \<open>map\<close> copies each feature and its properties (with \<open>pop ?? null\<close>, which
  is the same value here); nothing is written to the fetched objects.
\<close>

definition ml_copy :: "store \<Rightarrow> 'g feature_ref \<Rightarrow> 'g gfeat" where
  "ml_copy h f =
     \<lparr>properties = (h (properties_at f))\<lparr>pop := pop (h (properties_at f))\<rparr>,
      geometry = geometry_of f\<rparr>"

definition ml_combined :: "store \<Rightarrow> 'g feature_ref app_state \<Rightarrow> 'g gfeat list" where
  "ml_combined h st =
     (let feats = merged st;
          sorted = js_sort ml_cmp (map (ml_copy h) feats)
      in ml_rank_loop 1 sorted)"

definition nameMatch :: "jstring \<Rightarrow> jstring \<Rightarrow> bool" where
  "nameMatch q s = js_includes (toLowerCase s) (toLowerCase q)"

definition ml_listItems :: "store \<Rightarrow> 'g feature_ref app_state \<Rightarrow> 'g gfeat list" where
  "ml_listItems h st =
     filter (\<lambda>f. let p = properties f in
               nameMatch (query st) (name p)
               \<or> (truthy (parent p) \<and> nameMatch (query st) (the (parent p)))
               \<or> (truthy (county p) \<and> nameMatch (query st) (the (county p))))
       (ml_combined h st)"

definition gemeindenFC :: "store \<Rightarrow> 'g feature_ref app_state \<Rightarrow> 'g gfeat list option" where
  "gemeindenFC h st =
     (if gemeinden st = None then None
      else Some (filter (\<lambda>f. kind (properties f) = Gemeinde) (ml_combined h st)))"

definition ortsteileFC :: "store \<Rightarrow> 'g feature_ref app_state \<Rightarrow> 'g gfeat list option" where
  "ortsteileFC h st =
     (if ortsteile st = None then None
      else Some (filter (\<lambda>f. kind (properties f) = Ortsteil) (ml_combined h st)))"

definition ml_gemeinden_layer :: "store \<Rightarrow> 'g feature_ref app_state \<Rightarrow> 'g gfeat list option" where
  "ml_gemeinden_layer h st = (if showGemeinden st then gemeindenFC h st else None)"

definition ml_ortsteile_layer :: "store \<Rightarrow> 'g feature_ref app_state \<Rightarrow> 'g gfeat list option" where
  "ml_ortsteile_layer h st = (if showOrtsteile st then ortsteileFC h st else None)"

section \<open>Example inputs of the presentation application\<close>

definition ex_props :: "string \<Rightarrow> rat option \<Rightarrow> kind \<Rightarrow> props" where
  "ex_props n p k =
     \<lparr>id_prop = js n, name = js n, parent = None, county = None, ags = None, pop = p,
      area_km2 = None, density = None, kind = k, rank = None\<rparr>"

text \<open>Four municipalities with the populations 50000, unknown, 20000 and 20000.\<close>

definition ex_store :: store where
  "ex_store =
     (\<lambda>a. ex_props ''-'' None Ortsteil)
       (0 := ex_props ''a'' (Some 50000) Gemeinde,
        1 := ex_props ''b'' None Gemeinde,
        2 := ex_props ''c'' (Some 20000) Gemeinde,
        3 := ex_props ''d'' (Some 20000) Gemeinde)"

definition ex_refs :: "nat list \<Rightarrow> unit feature_ref list" where
  "ex_refs as = map (\<lambda>a. \<lparr>properties_at = a, geometry_of = ()\<rparr>) as"

definition ex_state :: "unit feature_ref app_state" where
  "ex_state = initial_state\<lparr>gemeinden := Some (ex_refs [0, 1, 2, 3])\<rparr>"

definition summary :: "'g gfeat \<Rightarrow> jstring \<times> rat option \<times> nat option" where
  "summary f = (id_prop (properties f), pop (properties f), rank (properties f))"

text \<open>
  The name M-u-umlaut-n-c-h-e-n (the u-umlaut is the code unit 252), a municipality of
  that name (a county-free city: its county has the same name) and a district of that
  name, both fetched.
\<close>

definition Muenchen :: jstring where
  "Muenchen = [77, 252, 110, 99, 104, 101, 110]"

definition city_store :: store where
  "city_store =
     (\<lambda>a. ex_props ''-'' None Ortsteil)
       (0 := (ex_props ''09162000'' (Some 1500000) Gemeinde)
               \<lparr>name := Muenchen, county := Some Muenchen, ags := Some (js ''09162000''),
                area_km2 := Some 300\<rparr>,
        1 := (ex_props ''0916200001'' (Some 20000) Ortsteil)\<lparr>name := Muenchen\<rparr>)"

definition city_state :: "unit feature_ref app_state" where
  "city_state =
     initial_state\<lparr>gemeinden := Some (ex_refs [0]), ortsteile := Some (ex_refs [1])\<rparr>"

text \<open>
  A network on which the municipality file cannot be fetched, and the district file is
  served.
\<close>

definition net_down :: "nat network" where
  "net_down url =
     (if url = ortsteile_url
      then Fulfilled \<lparr>ok = True, body = Some (FeatureCollection [7, 8])\<rparr> else Rejected)"

section \<open>Notions of the specification\<close>

text \<open>A feature of known population, and the sort key: the population, or -1.\<close>

definition known :: "'g gfeat \<Rightarrow> bool" where
  "known f = (pop (properties f) \<noteq> None)"

definition pop_key :: "'g gfeat \<Rightarrow> rat" where
  "pop_key f = nullish (pop (properties f)) (-1)"

text \<open>
  A fetched feature read as a value, without a rank, and a derived feature with its rank
  removed.
\<close>

definition view :: "store \<Rightarrow> 'g feature_ref \<Rightarrow> 'g gfeat" where
  "view h f = \<lparr>properties = (h (properties_at f))\<lparr>rank := None\<rparr>, geometry = geometry_of f\<rparr>"

definition unrank :: "'g gfeat \<Rightarrow> 'g gfeat" where
  "unrank f = f\<lparr>properties := (properties f)\<lparr>rank := None\<rparr>\<rparr>"

text \<open>
  What the promise of one chunk is fulfilled with, and the features of a parsed value.
\<close>

definition chunk_result :: "'f network \<Rightarrow> jstring \<Rightarrow> 'f json_value" where
  "chunk_result net c =
     (case net (chunk_url c) of
        Rejected \<Rightarrow> FeatureCollection []
      | Fulfilled r \<Rightarrow>
          (if ok r then (case body r of None \<Rightarrow> FeatureCollection [] | Some v \<Rightarrow> v)
           else FeatureCollection []))"

definition features_of :: "'f json_value \<Rightarrow> 'f list" where
  "features_of v = (case v of JsonNull \<Rightarrow> [] | FeatureCollection fs \<Rightarrow> fs)"

text \<open>
  The test and the assignment of the density loop, and the condition of the filter of the
  list.
\<close>

definition needs_density :: "props \<Rightarrow> bool" where
  "needs_density p =
     (density p = None \<and> is_finite (pop p) \<and> is_finite (area_km2 p) \<and> 0 < the (area_km2 p))"

definition fill_density :: "props \<Rightarrow> props" where
  "fill_density p = p\<lparr>density := Some (the (pop p) / the (area_km2 p))\<rparr>"

definition keeps :: "jstring \<Rightarrow> 'g gfeat \<Rightarrow> bool" where
  "keeps q f = (trim q = [] \<or> matches q f)"

definition of_kind :: "kind \<Rightarrow> 'g gfeat list \<Rightarrow> 'g gfeat list" where
  "of_kind k fs = filter (\<lambda>f. kind (properties f) = k) fs"

section \<open>The splitter: proofs\<close>

lemma by_push_grouped:
  assumes "distinct (map fst by)" "k \<in> set (map fst by)"
  shows "\<exists>by'. by_push k f by = Some by' \<and> map fst by' = map fst by \<and>
           set by' = (\<lambda>(c, fs). if c = k then (c, fs @ [f]) else (c, fs)) ` set by"
  using assms
proof (induction "by")
  case Nil
  then show ?case by simp
next
  case (Cons p rest)
  obtain k' fs where p: "p = (k', fs)" by (cases p)
  show ?case
  proof (cases "k' = k")
    case True
    with Cons.prems p have "k \<notin> set (map fst rest)" by simp
    then have "(\<lambda>(c, fs). if c = k then (c, fs @ [f]) else (c, fs)) ` set rest = set rest"
      by (force simp: image_iff)
    with True p show ?thesis by simp
  next
    case False
    with Cons.prems p have "distinct (map fst rest)" "k \<in> set (map fst rest)" by auto
    from Cons.IH[OF this] obtain by' where
      "by_push k f rest = Some by'" "map fst by' = map fst rest"
      "set by' = (\<lambda>(c, fs). if c = k then (c, fs @ [f]) else (c, fs)) ` set rest"
      by blast
    with False p show ?thesis by simp
  qed
qed

lemma group_step_grouped:
  assumes "grouped by xs"
  shows "\<exists>by2. by_push (state_of f) f
            (if \<not> by_has by (state_of f) then by_set_new by (state_of f) else by) = Some by2
          \<and> grouped by2 (xs @ [f])"
proof -
  let ?k = "state_of f"
  let ?by1 = "if \<not> by_has by ?k then by_set_new by ?k else by"
  from assms have d: "distinct (map fst by)"
    and s: "set (map fst by) = state_of ` set xs"
    and c: "\<forall>(c, fs) \<in> set by. fs = filter (\<lambda>f. state_of f = c) xs"
    by (auto simp: grouped_def)
  have d1: "distinct (map fst ?by1)" using d by (auto simp: by_has_def by_set_new_def)
  have k1: "?k \<in> set (map fst ?by1)" by (auto simp: by_has_def by_set_new_def)
  have s1: "set (map fst ?by1) = state_of ` set (xs @ [f])"
    using s by (auto simp: by_has_def by_set_new_def)
  have c1: "\<forall>(c, fs) \<in> set ?by1. fs = filter (\<lambda>f. state_of f = c) xs"
  proof (cases "by_has by ?k")
    case True
    then show ?thesis using c by simp
  next
    case False
    then have "?k \<notin> state_of ` set xs" using s by (simp add: by_has_def)
    then have "\<And>g. g \<in> set xs \<Longrightarrow> state_of g \<noteq> ?k" by (metis imageI)
    then have "filter (\<lambda>g. state_of g = ?k) xs = []" by (simp add: filter_empty_conv)
    then show ?thesis using c False by (auto simp: by_set_new_def)
  qed
  from by_push_grouped[OF d1 k1, of f] obtain by2 where
    p: "by_push ?k f ?by1 = Some by2" and m: "map fst by2 = map fst ?by1"
    and e: "set by2 = (\<lambda>(c, fs). if c = ?k then (c, fs @ [f]) else (c, fs)) ` set ?by1"
    by blast
  have "\<forall>(c, fs) \<in> set by2. fs = filter (\<lambda>g. state_of g = c) (xs @ [f])"
    unfolding e using c1 by (auto split: if_splits)
  with d1 s1 m have "grouped by2 (xs @ [f])" by (simp add: grouped_def)
  with p show ?thesis by blast
qed

lemma group_loop_grouped:
  "grouped by xs \<Longrightarrow> \<exists>by'. group_loop by fs = Some by' \<and> grouped by' (xs @ fs)"
proof (induction fs arbitrary: "by" xs)
  case Nil
  then show ?case by simp
next
  case (Cons f fs)
  from group_step_grouped[OF Cons.prems, of f] obtain by2 where
    p: "by_push (state_of f) f
          (if \<not> by_has by (state_of f) then by_set_new by (state_of f) else by) = Some by2"
    and g: "grouped by2 (xs @ [f])" by blast
  from Cons.IH[OF g] obtain by' where
    "group_loop by2 fs = Some by'" "grouped by' ((xs @ [f]) @ fs)" by blast
  with p show ?case by (simp add: Let_def)
qed

lemma grouped_map_of:
  assumes "grouped by xs" "c \<in> set (map fst by)"
  shows "map_of by c = Some (filter (\<lambda>f. state_of f = c) xs)"
proof -
  from assms obtain fs where m: "(c, fs) \<in> set by" by auto
  with assms(1) have "fs = filter (\<lambda>f. state_of f = c) xs" by (auto simp: grouped_def)
  moreover from assms(1) m have "map_of by c = Some fs" by (simp add: grouped_def)
  ultimately show ?thesis by simp
qed

lemma keys_of_facts:
  "distinct (keys_of fs)" "sorted (keys_of fs)" "set (keys_of fs) = state_of ` set fs"
  by (simp_all add: keys_of_def)

lemma sort_keys_of:
  assumes "grouped by fs"
  shows "sort (map fst by) = keys_of fs"
proof -
  from assms have d: "distinct (map fst by)" and s: "set (map fst by) = set (map state_of fs)"
    by (auto simp: grouped_def)
  have "sort (map fst by) = sort (remdups (map fst by))"
    by (simp only: distinct_remdups_id [OF d])
  also have "\<dots> = sorted_list_of_set (set (map fst by))"
    by (simp only: sorted_list_of_set_sort_remdups)
  also have "\<dots> = sorted_list_of_set (set (map state_of fs))" by (simp only: s)
  also have "\<dots> = keys_of fs"
    by (simp only: sorted_list_of_set_sort_remdups keys_of_def)
  finally show ?thesis .
qed

lemma write_loop_grouped:
  assumes "grouped by xs"
  shows "set cs \<subseteq> set (map fst by) \<Longrightarrow>
     write_loop by cs =
       (map (\<lambda>c. (file_name c, Some (filter (\<lambda>f. state_of f = c) xs))) (takeWhile path_ok cs),
        abort_of cs)"
proof (induction cs)
  case Nil
  show ?case by (simp add: abort_of_def)
next
  case (Cons c cs)
  then have "c \<in> set (map fst by)" by simp
  from grouped_map_of [OF assms this]
  have g: "map_of by c = Some (filter (\<lambda>f. state_of f = c) xs)" .
  show ?case
  proof (cases "path_ok c")
    case True
    then have "write_error (file_name c) = None" by (simp add: path_ok_def)
    moreover from Cons have "write_loop by cs =
       (map (\<lambda>c. (file_name c, Some (filter (\<lambda>f. state_of f = c) xs))) (takeWhile path_ok cs),
        abort_of cs)" by simp
    ultimately show ?thesis using True g by (simp add: abort_of_def)
  next
    case False
    then obtain e where "write_error (file_name c) = Some e" by (auto simp: path_ok_def)
    with False show ?thesis by (simp add: abort_of_def)
  qed
qed

text \<open>
  What the splitter computes, in closed form: the partitions in memory are those of the
  distinct keys in ascending order, each with the features of its key in their input
  order; the files are written in that order up to the first key whose write fails.
\<close>

lemma group_loop_closed_form:
  obtains "by" where "group_loop [] fs = Some by" "grouped by fs" "sort (map fst by) = keys_of fs"
proof -
  have "grouped [] []" by (simp add: grouped_def)
  from group_loop_grouped [OF this, of fs] obtain "by" where
    g: "group_loop [] fs = Some by" and i: "grouped by fs" by auto
  from g i sort_keys_of [OF i] that show ?thesis by blast
qed

lemma split_parts_closed_form:
  "split_parts fs =
     Some (map (\<lambda>c. (c, Some (filter (\<lambda>f. state_of f = c) fs))) (keys_of fs))"
proof -
  obtain "by" where g: "group_loop [] fs = Some by" and i: "grouped by fs"
    and k: "sort (map fst by) = keys_of fs" by (rule group_loop_closed_form)
  have "set (keys_of fs) = set (map fst by)" using k by (metis set_sort)
  then have "map (\<lambda>code. (code, map_of by code)) (keys_of fs) =
        map (\<lambda>c. (c, Some (filter (\<lambda>f. state_of f = c) fs))) (keys_of fs)"
    using grouped_map_of [OF i] by simp
  with g k show ?thesis by (simp add: split_parts_def)
qed

lemma main_closed_form:
  "main fs =
     (map (\<lambda>c. (file_name c, Some (filter (\<lambda>f. state_of f = c) fs)))
        (takeWhile path_ok (keys_of fs)),
      abort_of (keys_of fs))"
proof -
  obtain "by" where g: "group_loop [] fs = Some by" and i: "grouped by fs"
    and k: "sort (map fst by) = keys_of fs" by (rule group_loop_closed_form)
  have "set (keys_of fs) \<subseteq> set (map fst by)" using k by (metis set_sort subset_refl)
  from write_loop_grouped [OF i this] g k show ?thesis by (simp add: main_def)
qed

lemma mset_concat_filter_keys:
  "distinct cs \<Longrightarrow>
     mset (concat (map (\<lambda>c. filter (\<lambda>f. key f = c) xs) cs)) =
     mset (filter (\<lambda>f. key f \<in> set cs) xs)"
proof (induction cs)
  case Nil
  then show ?case by simp
next
  case (Cons c cs)
  then have "c \<notin> set cs" by simp
  then have "filter_mset (\<lambda>f. key f = c) (mset xs) + filter_mset (\<lambda>f. key f \<in> set cs) (mset xs)
      = filter_mset (\<lambda>f. key f \<in> set (c # cs)) (mset xs)"
    by (induction xs) auto
  with Cons show ?case by simp
qed

lemma mset_partitions:
  "mset (concat (map (\<lambda>c. filter (\<lambda>f. state_of f = c) fs) (keys_of fs))) = mset fs"
proof -
  have "mset (concat (map (\<lambda>c. filter (\<lambda>f. state_of f = c) fs) (keys_of fs))) =
        mset (filter (\<lambda>f. state_of f \<in> set (keys_of fs)) fs)"
    by (rule mset_concat_filter_keys) (rule keys_of_facts)
  also have "filter (\<lambda>f. state_of f \<in> set (keys_of fs)) fs = fs"
    by (simp add: keys_of_facts)
  finally show ?thesis .
qed

subsection \<open>Names on disk\<close>

lemma length_disk_name: "length (disk_name p) = length p"
  by (induction p rule: disk_name.induct) simp_all

lemma disk_name_plain:
  "\<forall>c \<in> set p. \<not> is_high c \<and> \<not> is_low c \<Longrightarrow> disk_name p = p"
  by (induction p rule: disk_name.induct) (simp_all add: lone_def)

lemma disk_name_append_left:
  "\<forall>c \<in> set a. \<not> is_high c \<and> \<not> is_low c \<Longrightarrow> disk_name (a @ k) = a @ disk_name k"
proof (induction a)
  case Nil
  show ?case by simp
next
  case (Cons x a)
  then have x: "\<not> is_high x" "\<not> is_low x" and ih: "disk_name (a @ k) = a @ disk_name k"
    by simp_all
  show ?case
  proof (cases "a @ k")
    case Nil
    then show ?thesis using x by (simp add: lone_def)
  next
    case (Cons d cs)
    then have "disk_name (x # a @ k) = x # disk_name (a @ k)" using x by (simp add: lone_def)
    with ih show ?thesis by simp
  qed
qed

lemma disk_name_append_right:
  "\<forall>c \<in> set b. \<not> is_high c \<and> \<not> is_low c \<Longrightarrow> disk_name (k @ b) = disk_name k @ b"
proof (induction k rule: disk_name.induct)
  case 1
  then show ?case by (simp add: disk_name_plain)
next
  case (2 c)
  then show ?case by (cases b) (simp_all add: disk_name_plain)
next
  case (3 c d cs)
  then show ?case by simp
qed

lemma disk_name_file_name:
  "disk_name (file_name c) = js ''de-'' @ disk_name c @ js ''.geojson''"
proof -
  have p: "\<forall>c \<in> set (js ''de-''). \<not> is_high c \<and> \<not> is_low c"
          "\<forall>c \<in> set (js ''.geojson''). \<not> is_high c \<and> \<not> is_low c"
    by (simp_all add: js_def is_high_def is_low_def)
  show ?thesis
    by (simp only: file_name_def disk_name_append_left [OF p(1)] disk_name_append_right [OF p(2)])
qed

lemma disk_name_file_name_inj:
  "safe_key c \<Longrightarrow> safe_key c' \<Longrightarrow> disk_name (file_name c) = disk_name (file_name c') \<Longrightarrow> c = c'"
  by (simp add: disk_name_file_name safe_key_def)

lemma safe_key_path_ok: "safe_key c \<Longrightarrow> path_ok c"
  by (simp add: safe_key_def path_ok_def write_error_def file_name_def js_def)

lemma path_ok_empty: "path_ok []"
  by (simp add: path_ok_def write_error_def file_name_def js_def)

lemma disk_name_empty_key: "disk_name (file_name c) = disk_name (file_name []) \<Longrightarrow> c = []"
proof -
  assume "disk_name (file_name c) = disk_name (file_name [])"
  then have "length (disk_name (file_name c)) = length (disk_name (file_name ([] :: jstring)))"
    by simp
  then show "c = []" by (simp add: length_disk_name file_name_def)
qed

subsection \<open>The disk after the writes\<close>

lemma disk_of_snoc:
  "disk_of (files @ [(n, fc)]) = (disk_of files)(disk_name n \<mapsto> fc)"
  by (simp add: disk_of_def)

lemma disk_of_lookup:
  assumes "(n, fc) \<in> set files"
    and "\<And>n' fc'. (n', fc') \<in> set files \<Longrightarrow> disk_name n' = disk_name n \<Longrightarrow> fc' = fc"
  shows "disk_of files (disk_name n) = Some fc"
  using assms
proof (induction files rule: rev_induct)
  case Nil
  then show ?case by simp
next
  case (snoc x files)
  obtain n' fc' where x: "x = (n', fc')" by (cases x)
  show ?case
  proof (cases "disk_name n' = disk_name n")
    case True
    with snoc.prems(2) [of n' fc'] x have "fc' = fc" by simp
    with True x show ?thesis by (simp add: disk_of_snoc)
  next
    case False
    with snoc.prems(1) x have m: "(n, fc) \<in> set files" by auto
    have "disk_of files (disk_name n) = Some fc"
      by (rule snoc.IH [OF m]) (use snoc.prems(2) in auto)
    with False x show ?thesis by (simp add: disk_of_snoc)
  qed
qed

text \<open>The file of a key that was written, and whose name on disk no other key shares.\<close>

lemma read_file_written:
  assumes "c \<in> set cs"
    and "\<And>c'. c' \<in> set cs \<Longrightarrow> disk_name (file_name c') = disk_name (file_name c) \<Longrightarrow> c' = c"
  shows "read_file (disk_of (map (\<lambda>c. (file_name c, Some (part c))) cs)) c = part c"
proof -
  have "disk_of (map (\<lambda>c. (file_name c, Some (part c))) cs) (disk_name (file_name c)) =
          Some (Some (part c))"
  proof (rule disk_of_lookup)
    show "(file_name c, Some (part c)) \<in> set (map (\<lambda>c. (file_name c, Some (part c))) cs)"
      using assms(1) by auto
  next
    fix n' fc'
    assume "(n', fc') \<in> set (map (\<lambda>c. (file_name c, Some (part c))) cs)"
      and e: "disk_name n' = disk_name (file_name c)"
    then obtain c' where c': "c' \<in> set cs" "n' = file_name c'" "fc' = Some (part c')" by auto
    with e assms(2) [of c'] have "c' = c" by simp
    with c' show "fc' = Some (part c)" by simp
  qed
  then show ?thesis by (simp add: read_file_def)
qed

lemma main_safe:
  assumes "\<forall>f \<in> set fs. safe_key (state_of f)"
  shows "main fs =
           (map (\<lambda>c. (file_name c, Some (filter (\<lambda>f. state_of f = c) fs))) (keys_of fs), None)"
    and "c \<in> set (keys_of fs) \<Longrightarrow>
           read_file (disk_of (fst (main fs))) c = filter (\<lambda>f. state_of f = c) fs"
proof -
  from assms have s: "\<forall>c \<in> set (keys_of fs). safe_key c" by (auto simp: keys_of_facts)
  then have "\<forall>c \<in> set (keys_of fs). path_ok c" by (simp add: safe_key_path_ok)
  then have t: "takeWhile path_ok (keys_of fs) = keys_of fs" "dropWhile path_ok (keys_of fs) = []"
    by simp_all
  show m: "main fs =
           (map (\<lambda>c. (file_name c, Some (filter (\<lambda>f. state_of f = c) fs))) (keys_of fs), None)"
    by (simp add: main_closed_form t abort_of_def)
  show "read_file (disk_of (fst (main fs))) c = filter (\<lambda>f. state_of f = c) fs"
    if c: "c \<in> set (keys_of fs)"
    unfolding m fst_conv
    by (rule read_file_written [OF c]) (use s c disk_name_file_name_inj in blast)
qed

lemma main_empty_key:
  assumes "[] \<in> set (keys_of fs)"
  shows "read_file (disk_of (fst (main fs))) [] = filter (\<lambda>f. state_of f = []) fs"
proof -
  have "keys_of fs \<noteq> []" using assms by auto
  then obtain k ks where k: "keys_of fs = k # ks" by (cases "keys_of fs") auto
  have "sorted (keys_of fs)" by (rule keys_of_facts)
  with k assms have "k \<le> []" by auto
  then have "k = []" by simp
  with k have "[] \<in> set (takeWhile path_ok (keys_of fs))" by (simp add: path_ok_empty)
  then show ?thesis
    unfolding main_closed_form fst_conv
    by (rule read_file_written) (rule disk_name_empty_key)
qed

lemma main_empty_key_written:
  assumes "[] \<in> set (keys_of fs)"
  shows "(file_name [], Some (filter (\<lambda>f. state_of f = []) fs)) \<in> set (fst (main fs))"
proof -
  have "keys_of fs \<noteq> []" using assms by auto
  then obtain k ks where k: "keys_of fs = k # ks" by (cases "keys_of fs") auto
  have "sorted (keys_of fs)" by (rule keys_of_facts)
  with k assms have "k \<le> []" by auto
  then have "k = []" by simp
  with k have "[] \<in> set (takeWhile path_ok (keys_of fs))" by (simp add: path_ok_empty)
  then show ?thesis unfolding main_closed_form fst_conv by force
qed

subsection \<open>The example collections\<close>

lemma ex_features_keys: "keys_of ex_features = [[], js ''01'', js ''09'']"
  by (simp add: keys_of_def ex_features_def state_of_def ags_of_def or_else_def truthy_def js_def)

lemma ex_features_safe: "\<forall>f \<in> set ex_features. safe_key (state_of f)"
  by (simp add: ex_features_def state_of_def ags_of_def or_else_def truthy_def js_def
      safe_key_def lone_def is_high_def is_low_def)

lemma ex_features_parts:
  "filter (\<lambda>f. state_of f = []) ex_features = [ex_features ! 1]"
  "filter (\<lambda>f. state_of f = js ''01'') ex_features = [ex_features ! 2]"
  "filter (\<lambda>f. state_of f = js ''09'') ex_features = [ex_features ! 0, ex_features ! 3]"
  by (simp_all add: ex_features_def state_of_def ags_of_def or_else_def truthy_def js_def)

lemma ex_slash_main:
  "main ex_slash = ([(js ''de-01.geojson'', Some [ex_slash ! 0])], Some ENOENT)"
  "keys_of ex_slash = [js ''01'', js ''1/'']"
  by (simp_all add: main_def keys_of_def ex_slash_def state_of_def ags_of_def or_else_def
      truthy_def by_has_def by_set_new_def file_name_def write_error_def js_def Let_def)

lemma ex_slash_disk:
  "read_file (disk_of (fst (main ex_slash))) (js ''01'') = [ex_slash ! 0]"
  "read_file (disk_of (fst (main ex_slash))) (js ''1/'') = []"
  by (simp_all add: ex_slash_main read_file_def disk_of_def)
     (simp_all add: file_name_def js_def lone_def is_high_def is_low_def)

lemma ex_surrogates_main:
  "main ex_surrogates =
     ([(file_name [55296, 49], Some [ex_surrogates ! 0]),
       (file_name [55297, 49], Some [ex_surrogates ! 1])], None)"
  "keys_of ex_surrogates = [[55296, 49], [55297, 49]]"
  by (simp_all add: main_def keys_of_def ex_surrogates_def state_of_def ags_of_def or_else_def
      truthy_def by_has_def by_set_new_def file_name_def write_error_def js_def Let_def)

lemma ex_surrogates_disk:
  "disk_name (file_name [55296, 49]) = disk_name (file_name [55297, 49])"
  "read_file (disk_of (fst (main ex_surrogates))) [55296, 49] = [ex_surrogates ! 1]"
  "read_file (disk_of (fst (main ex_surrogates))) [55297, 49] = [ex_surrogates ! 1]"
  by (simp_all add: ex_surrogates_main read_file_def disk_of_def disk_name_file_name)
     (simp_all add: lone_def is_high_def is_low_def)

lemma ex_nul_main:
  "main ex_nul = ([], Some ERR_INVALID_ARG_VALUE)"
  "keys_of ex_nul = [[0, 49]]"
  "read_file (disk_of (fst (main ex_nul))) [0, 49] = []"
proof -
  show m: "main ex_nul = ([], Some ERR_INVALID_ARG_VALUE)"
    by (simp add: main_def ex_nul_def state_of_def ags_of_def or_else_def
        truthy_def by_has_def by_set_new_def file_name_def write_error_def js_def Let_def)
  show "keys_of ex_nul = [[0, 49]]"
    by (simp add: keys_of_def ex_nul_def state_of_def ags_of_def or_else_def truthy_def)
  show "read_file (disk_of (fst (main ex_nul))) [0, 49] = []"
    by (simp add: m read_file_def disk_of_def)
qed

section \<open>The splitter: the claims\<close>

text \<open>
  C4, as stated, fails. For a key with a path separator the write fails and the script
  ends: the file of that key and of every later key is missing, and what is read back
  lacks their features. Two keys that differ in an unpaired surrogate only are written to
  the same file, and what is read back has the features of the second key twice and those
  of the first not at all. For a key with a NUL the write is refused.
\<close>

theorem split_reassemble_fails_on_unsafe_keys:
  "main ex_slash = ([(js ''de-01.geojson'', Some [ex_slash ! 0])], Some ENOENT) \<and>
   reassemble (disk_of (fst (main ex_slash))) (keys_of ex_slash) = [ex_slash ! 0] \<and>
   mset (reassemble (disk_of (fst (main ex_slash))) (keys_of ex_slash)) \<noteq> mset ex_slash \<and>
   snd (main ex_surrogates) = None \<and>
   reassemble (disk_of (fst (main ex_surrogates))) (keys_of ex_surrogates) =
     [ex_surrogates ! 1, ex_surrogates ! 1] \<and>
   mset (reassemble (disk_of (fst (main ex_surrogates))) (keys_of ex_surrogates)) \<noteq>
     mset ex_surrogates \<and>
   main ex_nul = ([], Some ERR_INVALID_ARG_VALUE) \<and>
   mset (reassemble (disk_of (fst (main ex_nul))) (keys_of ex_nul)) \<noteq> mset ex_nul"
proof -
  have a: "reassemble (disk_of (fst (main ex_slash))) (keys_of ex_slash) = [ex_slash ! 0]"
    by (simp add: reassemble_def ex_slash_main(2) ex_slash_disk)
  have b: "reassemble (disk_of (fst (main ex_surrogates))) (keys_of ex_surrogates) =
     [ex_surrogates ! 1, ex_surrogates ! 1]"
    by (simp add: reassemble_def ex_surrogates_main(2) ex_surrogates_disk)
  have c: "reassemble (disk_of (fst (main ex_nul))) (keys_of ex_nul) = []"
    by (simp add: reassemble_def ex_nul_main(2,3))
  have a': "mset (reassemble (disk_of (fst (main ex_slash))) (keys_of ex_slash)) \<noteq>
      mset ex_slash"
    by (subst a) (simp add: ex_slash_def)
  have b': "mset (reassemble (disk_of (fst (main ex_surrogates))) (keys_of ex_surrogates)) \<noteq>
     mset ex_surrogates"
    by (subst b) (simp add: ex_surrogates_def)
  have c': "mset (reassemble (disk_of (fst (main ex_nul))) (keys_of ex_nul)) \<noteq> mset ex_nul"
    by (subst c) (simp add: ex_nul_def)
  have e: "snd (main ex_surrogates) = None" by (simp add: ex_surrogates_main(1))
  show ?thesis
    by (rule conjI [OF ex_slash_main(1) conjI [OF a conjI [OF a' conjI [OF e conjI [OF b
          conjI [OF b' conjI [OF ex_nul_main(1) c']]]]]]])
qed

text \<open>
  C4, amended. For every feature collection the partitions the splitter holds in memory
  are those of the distinct 2-character keys in ascending order, each with the features of
  its key in their original relative order, and together they have the original multiset
  of features. When no key has a path separator, a NUL or an unpaired surrogate, the
  script ends without an exception, each partition is written to its file in that order,
  and reading the files back in ascending key order gives the partitions, and so the
  original multiset of features.
\<close>

theorem split_reassemble:
  "split_parts fs =
     Some (map (\<lambda>c. (c, Some (filter (\<lambda>f. state_of f = c) fs))) (keys_of fs)) \<and>
   sorted (keys_of fs) \<and> distinct (keys_of fs) \<and>
   mset (concat (map (\<lambda>c. filter (\<lambda>f. state_of f = c) fs) (keys_of fs))) = mset fs \<and>
   ((\<forall>f \<in> set fs. safe_key (state_of f)) \<longrightarrow>
      main fs =
        (map (\<lambda>c. (file_name c, Some (filter (\<lambda>f. state_of f = c) fs))) (keys_of fs), None) \<and>
      reassemble (disk_of (fst (main fs))) (keys_of fs) =
        concat (map (\<lambda>c. filter (\<lambda>f. state_of f = c) fs) (keys_of fs)) \<and>
      mset (reassemble (disk_of (fst (main fs))) (keys_of fs)) = mset fs)"
proof -
  have safe: "main fs =
        (map (\<lambda>c. (file_name c, Some (filter (\<lambda>f. state_of f = c) fs))) (keys_of fs), None) \<and>
      reassemble (disk_of (fst (main fs))) (keys_of fs) =
        concat (map (\<lambda>c. filter (\<lambda>f. state_of f = c) fs) (keys_of fs)) \<and>
      mset (reassemble (disk_of (fst (main fs))) (keys_of fs)) = mset fs"
    if s: "\<forall>f \<in> set fs. safe_key (state_of f)"
  proof -
    have "map (read_file (disk_of (fst (main fs)))) (keys_of fs) =
          map (\<lambda>c. filter (\<lambda>f. state_of f = c) fs) (keys_of fs)"
      by (rule map_cong [OF refl]) (rule main_safe(2) [OF s])
    then have r: "reassemble (disk_of (fst (main fs))) (keys_of fs) =
        concat (map (\<lambda>c. filter (\<lambda>f. state_of f = c) fs) (keys_of fs))"
      by (simp only: reassemble_def)
    from main_safe(1) [OF s] r mset_partitions [of fs] show ?thesis by simp
  qed
  from split_parts_closed_form [of fs] keys_of_facts(1,2) [of fs] mset_partitions [of fs] safe
  show ?thesis by blast
qed

theorem split_reassemble_witness:
  "list_all (\<lambda>f. safe_key (state_of f)) ex_features \<and>
   main ex_features =
     ([(js ''de-.geojson'', Some [ex_features ! 1]),
       (js ''de-01.geojson'', Some [ex_features ! 2]),
       (js ''de-09.geojson'', Some [ex_features ! 0, ex_features ! 3])], None) \<and>
   reassemble (disk_of (fst (main ex_features))) (keys_of ex_features) =
     [ex_features ! 1, ex_features ! 2, ex_features ! 0, ex_features ! 3] \<and>
   mset (reassemble (disk_of (fst (main ex_features))) (keys_of ex_features)) = mset ex_features"
proof -
  have n: "file_name [] = js ''de-.geojson''" "file_name (js ''01'') = js ''de-01.geojson''"
    "file_name (js ''09'') = js ''de-09.geojson''"
    by (simp_all add: file_name_def js_def)
  have h: "list_all (\<lambda>f. safe_key (state_of f)) ex_features"
    using ex_features_safe by (simp add: list_all_iff)
  from split_reassemble [of ex_features] ex_features_safe
  have m: "main ex_features =
        (map (\<lambda>c. (file_name c, Some (filter (\<lambda>f. state_of f = c) ex_features)))
           (keys_of ex_features), None)"
    and r: "reassemble (disk_of (fst (main ex_features))) (keys_of ex_features) =
        concat (map (\<lambda>c. filter (\<lambda>f. state_of f = c) ex_features) (keys_of ex_features))"
    and ms: "mset (reassemble (disk_of (fst (main ex_features))) (keys_of ex_features)) =
        mset ex_features"
    by blast+
  have m': "main ex_features =
     ([(js ''de-.geojson'', Some [ex_features ! 1]),
       (js ''de-01.geojson'', Some [ex_features ! 2]),
       (js ''de-09.geojson'', Some [ex_features ! 0, ex_features ! 3])], None)"
    by (subst m) (simp add: ex_features_keys ex_features_parts n)
  have r': "reassemble (disk_of (fst (main ex_features))) (keys_of ex_features) =
     [ex_features ! 1, ex_features ! 2, ex_features ! 0, ex_features ! 3]"
    by (subst r) (simp add: ex_features_keys ex_features_parts)
  show ?thesis by (rule conjI [OF h conjI [OF m' conjI [OF r' ms]]])
qed

text \<open>
  C10, as stated, fails: a municipality whose key has a path separator is in no file,
  because the write of its partition fails and ends the script; and of two
  municipalities whose keys differ in an unpaired surrogate only, the first is in no file,
  because the file of the second replaces its file.
\<close>

theorem split_drops_feature_of_unsafe_key:
  "ex_slash ! 1 \<in> set ex_slash \<and>
   state_of (ex_slash ! 1) = js ''1/'' \<and>
   snd (main ex_slash) = Some ENOENT \<and>
   fst (main ex_slash) = [(js ''de-01.geojson'', Some [ex_slash ! 0])] \<and>
   read_file (disk_of (fst (main ex_slash))) (js ''1/'') = [] \<and>
   ex_slash ! 1 \<notin> set (reassemble (disk_of (fst (main ex_slash))) (keys_of ex_slash)) \<and>
   ex_surrogates ! 0 \<in> set ex_surrogates \<and>
   snd (main ex_surrogates) = None \<and>
   ex_surrogates ! 0 \<notin>
     set (reassemble (disk_of (fst (main ex_surrogates))) (keys_of ex_surrogates))"
proof -
  have a: "ex_slash ! 1 \<in> set ex_slash" "state_of (ex_slash ! 1) = js ''1/''"
    by (simp_all add: ex_slash_def state_of_def ags_of_def or_else_def truthy_def js_def)
  have r: "ex_slash ! 1 \<notin> set (reassemble (disk_of (fst (main ex_slash))) (keys_of ex_slash))"
    by (simp add: reassemble_def ex_slash_main(2) ex_slash_disk) (simp add: ex_slash_def js_def)
  have e: "snd (main ex_slash) = Some ENOENT"
    "fst (main ex_slash) = [(js ''de-01.geojson'', Some [ex_slash ! 0])]"
    by (simp_all add: ex_slash_main(1))
  have s: "ex_surrogates ! 0 \<in> set ex_surrogates" by (simp add: ex_surrogates_def)
  have s': "snd (main ex_surrogates) = None" by (simp add: ex_surrogates_main(1))
  have t: "ex_surrogates ! 0 \<notin>
     set (reassemble (disk_of (fst (main ex_surrogates))) (keys_of ex_surrogates))"
    by (simp add: reassemble_def ex_surrogates_main(2) ex_surrogates_disk)
       (simp add: ex_surrogates_def)
  show ?thesis
    by (rule conjI [OF a(1) conjI [OF a(2) conjI [OF e(1) conjI [OF e(2)
          conjI [OF ex_slash_disk(2) conjI [OF r conjI [OF s conjI [OF s' t]]]]]]]])
qed

text \<open>
  C10, amended. In memory the splitter assigns every input feature to exactly one
  partition, that of its key, with all its occurrences. A feature that has neither
  \<open>ags\<close> nor \<open>id\<close> has the empty key, and its partition is always written, to
  \<open>de-.geojson\<close>. When no key has a path separator, a NUL or an unpaired surrogate,
  the script ends without an exception and every feature is in the file of its key, with
  all its occurrences, and in no other file: no feature is dropped.
\<close>

theorem split_exactly_one_partition:
  "split_parts fs =
     Some (map (\<lambda>c. (c, Some (filter (\<lambda>g. state_of g = c) fs))) (keys_of fs)) \<and>
   (\<forall>f \<in> set fs. \<exists>!c. c \<in> set (keys_of fs) \<and> f \<in> set (filter (\<lambda>g. state_of g = c) fs)) \<and>
   (\<forall>f \<in> set fs. count_list (filter (\<lambda>g. state_of g = state_of f) fs) f = count_list fs f) \<and>
   (\<forall>f \<in> set fs. raw_ags f = None \<and> raw_id f = None \<longrightarrow>
      state_of f = [] \<and> file_name (state_of f) = js ''de-.geojson'' \<and>
      (file_name [], Some (filter (\<lambda>g. state_of g = []) fs)) \<in> set (fst (main fs)) \<and>
      read_file (disk_of (fst (main fs))) [] = filter (\<lambda>g. state_of g = []) fs \<and>
      f \<in> set (read_file (disk_of (fst (main fs))) [])) \<and>
   ((\<forall>f \<in> set fs. safe_key (state_of f)) \<longrightarrow>
      snd (main fs) = None \<and>
      (\<forall>f \<in> set fs.
         count_list (read_file (disk_of (fst (main fs))) (state_of f)) f = count_list fs f \<and>
         (\<forall>c \<in> set (keys_of fs). c \<noteq> state_of f \<longrightarrow>
            f \<notin> set (read_file (disk_of (fst (main fs))) c))))"
proof -
  have cnt: "count_list (filter (\<lambda>g. state_of g = state_of f) xs) f = count_list xs f" for f xs
    by (induction xs) auto
  have one: "\<exists>!c. c \<in> set (keys_of fs) \<and> f \<in> set (filter (\<lambda>g. state_of g = c) fs)"
    if "f \<in> set fs" for f
    using that by (auto simp: keys_of_facts)
  have emp: "state_of f = [] \<and> file_name (state_of f) = js ''de-.geojson'' \<and>
      (file_name [], Some (filter (\<lambda>g. state_of g = []) fs)) \<in> set (fst (main fs)) \<and>
      read_file (disk_of (fst (main fs))) [] = filter (\<lambda>g. state_of g = []) fs \<and>
      f \<in> set (read_file (disk_of (fst (main fs))) [])"
    if f: "f \<in> set fs" and n: "raw_ags f = None \<and> raw_id f = None" for f
  proof -
    from n have k: "state_of f = []"
      by (simp add: state_of_def ags_of_def or_else_def truthy_def)
    with f have m: "[] \<in> set (keys_of fs)" by (force simp: keys_of_facts)
    have "f \<in> set (filter (\<lambda>g. state_of g = []) fs)" using f k by simp
    with k main_empty_key [OF m] main_empty_key_written [OF m] show ?thesis
      by (simp add: file_name_def js_def)
  qed
  have safe: "snd (main fs) = None \<and>
      (\<forall>f \<in> set fs.
         count_list (read_file (disk_of (fst (main fs))) (state_of f)) f = count_list fs f \<and>
         (\<forall>c \<in> set (keys_of fs). c \<noteq> state_of f \<longrightarrow>
            f \<notin> set (read_file (disk_of (fst (main fs))) c)))"
    if s: "\<forall>f \<in> set fs. safe_key (state_of f)"
  proof -
    have r: "read_file (disk_of (fst (main fs))) c = filter (\<lambda>g. state_of g = c) fs"
      if "c \<in> set (keys_of fs)" for c
      by (rule main_safe(2) [OF s that])
    have "snd (main fs) = None" by (simp add: main_safe(1) [OF s])
    moreover have "count_list (read_file (disk_of (fst (main fs))) (state_of f)) f =
        count_list fs f" if "f \<in> set fs" for f
      using that r [of "state_of f"] cnt by (simp add: keys_of_facts)
    moreover have "f \<notin> set (read_file (disk_of (fst (main fs))) c)"
      if "c \<in> set (keys_of fs)" "c \<noteq> state_of f" for f c
      using that r [of c] by auto
    ultimately show ?thesis by blast
  qed
  from split_parts_closed_form [of fs] one cnt emp safe show ?thesis by blast
qed

theorem split_exactly_one_partition_witness:
  "ex_features ! 1 \<in> set ex_features \<and>
   raw_ags (ex_features ! 1) = None \<and> raw_id (ex_features ! 1) = None \<and>
   state_of (ex_features ! 1) = [] \<and>
   (file_name [], Some [ex_features ! 1]) \<in> set (fst (main ex_features)) \<and>
   read_file (disk_of (fst (main ex_features))) [] = [ex_features ! 1] \<and>
   list_all (\<lambda>f. safe_key (state_of f)) ex_features \<and>
   snd (main ex_features) = None \<and>
   list_all (\<lambda>f. count_list (read_file (disk_of (fst (main ex_features))) (state_of f)) f =
                  count_list ex_features f) ex_features"
proof -
  have a: "ex_features ! 1 \<in> set ex_features" by (simp add: ex_features_def)
  have b: "raw_ags (ex_features ! 1) = None" "raw_id (ex_features ! 1) = None"
    by (simp_all add: ex_features_def)
  have h: "list_all (\<lambda>f. safe_key (state_of f)) ex_features"
    using ex_features_safe by (simp add: list_all_iff)
  note t = split_exactly_one_partition [of ex_features]
  from t a b have k: "state_of (ex_features ! 1) = []"
    and w: "(file_name [], Some (filter (\<lambda>g. state_of g = []) ex_features)) \<in>
              set (fst (main ex_features))"
    and d: "read_file (disk_of (fst (main ex_features))) [] =
              filter (\<lambda>g. state_of g = []) ex_features"
    by blast+
  from t ex_features_safe have e: "snd (main ex_features) = None"
    and c: "\<forall>f \<in> set ex_features.
         count_list (read_file (disk_of (fst (main ex_features))) (state_of f)) f =
           count_list ex_features f"
    by blast+
  have w': "(file_name [], Some [ex_features ! 1]) \<in> set (fst (main ex_features))"
    using w by (simp only: ex_features_parts)
  have d': "read_file (disk_of (fst (main ex_features))) [] = [ex_features ! 1]"
    using d by (simp only: ex_features_parts)
  have c': "list_all (\<lambda>f. count_list (read_file (disk_of (fst (main ex_features))) (state_of f)) f =
                  count_list ex_features f) ex_features"
    using c by (simp only: list_all_iff)
  show ?thesis
    by (rule conjI [OF a conjI [OF b(1) conjI [OF b(2) conjI [OF k conjI [OF w'
          conjI [OF d' conjI [OF h conjI [OF e c']]]]]]]])
qed

section \<open>The producer: proofs\<close>

lemma emit_loop_eq: "emit_loop N m out fs = out @ map (emit N m) fs"
  by (induction fs arbitrary: out) simp_all

lemma produce_eq:
  "produce N krs gems = map (emit N (krs_loop Map.empty krs)) gems"
  by (simp add: produce_def emit_loop_eq)

lemma emit_density:
  "out_density (out_properties (emit N m f)) =
     (case (out_pop (out_properties (emit N m f)), out_area_km2 (out_properties (emit N m f))) of
        (Some p, Some a) \<Rightarrow> if 0 < a then Some (p / a) else None
      | _ \<Rightarrow> None)"
  by (auto simp: emit_def Let_def is_finite_def split: option.splits)

lemma emit_pop_area:
  "out_pop (out_properties (emit N m f)) = read_number N (wfs_ewz (props_or_empty f))"
  "out_area_km2 (out_properties (emit N m f)) = read_number N (wfs_kfl (props_or_empty f))"
  by (simp_all add: emit_def Let_def is_finite_def)

lemma ex_produce:
  "map out_properties (produce digits_Number ex_krs ex_gems) =
     [\<lparr>out_id = js ''01001000'', out_name = Some (js ''Flensburg''), out_county = None,
       out_ags = js ''01001000'', out_pop = Some 1234, out_area_km2 = Some 2,
       out_density = Some 617, out_kind = Gemeinde\<rparr>,
      \<lparr>out_id = js ''09162000'', out_name = Some (js ''Muenchen''),
       out_county = Some (js ''Muenchen''),
       out_ags = js ''09162000'', out_pop = Some 1500000, out_area_km2 = None,
       out_density = None, out_kind = Gemeinde\<rparr>]"
  by (simp add: produce_def ex_krs_def ex_gems_def emit_def props_or_empty_def
      str_or_empty_def or_else_def truthy_def pad_start_def read_number_def remove_commas_def
      digits_Number_def is_finite_def county_of_def template_def js_def Let_def)

text \<open>
  C5. For every municipality feature the producer emits, \<open>pop\<close> and \<open>area_km2\<close> are
  the parsed \<open>ewz\<close> and \<open>kfl\<close> fields (a number as it is, a string through
  \<open>Number\<close> after its commas are removed, anything else and any failed parse absent),
  and \<open>density\<close> is \<open>pop / area_km2\<close> when both are present and the area is positive,
  and absent otherwise.
\<close>

theorem producer_density:
  assumes "i < length gems"
  shows "length (produce N krs gems) = length gems \<and>
         out_pop (out_properties (produce N krs gems ! i)) =
           read_number N (wfs_ewz (props_or_empty (gems ! i))) \<and>
         out_area_km2 (out_properties (produce N krs gems ! i)) =
           read_number N (wfs_kfl (props_or_empty (gems ! i))) \<and>
         out_density (out_properties (produce N krs gems ! i)) =
           (case (out_pop (out_properties (produce N krs gems ! i)),
                  out_area_km2 (out_properties (produce N krs gems ! i))) of
              (Some p, Some a) \<Rightarrow> if 0 < a then Some (p / a) else None
            | _ \<Rightarrow> None) \<and>
         read_number N (JNum r) = Some r \<and>
         read_number N (JStr s) = N (remove_commas s) \<and>
         read_number N JAbsent = None \<and> read_number N JOther = None"
  using assms
  by (simp add: produce_eq emit_pop_area emit_density read_number_def)

theorem producer_density_witness:
  "(0::nat) < length ex_gems \<and>
   out_pop (out_properties (produce digits_Number ex_krs ex_gems ! 0)) = Some 1234 \<and>
   out_area_km2 (out_properties (produce digits_Number ex_krs ex_gems ! 0)) = Some 2 \<and>
   out_density (out_properties (produce digits_Number ex_krs ex_gems ! 0)) = Some 617 \<and>
   (1::nat) < length ex_gems \<and>
   out_pop (out_properties (produce digits_Number ex_krs ex_gems ! 1)) = Some 1500000 \<and>
   out_area_km2 (out_properties (produce digits_Number ex_krs ex_gems ! 1)) = None \<and>
   out_density (out_properties (produce digits_Number ex_krs ex_gems ! 1)) = None"
proof -
  have l: "(0::nat) < length ex_gems" "(1::nat) < length ex_gems" by (simp_all add: ex_gems_def)
  have e: "read_number digits_Number (wfs_ewz (props_or_empty (ex_gems ! 0))) = Some 1234"
          "read_number digits_Number (wfs_kfl (props_or_empty (ex_gems ! 0))) = Some 2"
          "read_number digits_Number (wfs_ewz (props_or_empty (ex_gems ! 1))) = Some 1500000"
          "read_number digits_Number (wfs_kfl (props_or_empty (ex_gems ! 1))) = None"
    by (simp_all add: ex_gems_def props_or_empty_def read_number_def remove_commas_def
        digits_Number_def js_def)
  show ?thesis
    using producer_density [OF l(1), of digits_Number ex_krs]
          producer_density [OF l(2), of digits_Number ex_krs] l e
    by simp
qed

text \<open>
  C9. A municipality whose 5-character county key has no entry in the county lookup is
  still emitted, at its position, with its padded identifier, its name and its geometry,
  and with \<open>county\<close> absent.
\<close>

theorem producer_missing_county:
  assumes "i < length gems"
    and "krs_loop Map.empty krs (ars5_of (gems ! i)) = None"
  shows "length (produce N krs gems) = length gems \<and>
         out_county (out_properties (produce N krs gems ! i)) = None \<and>
         out_id (out_properties (produce N krs gems ! i)) =
           pad_start 8 (str_or_empty (wfs_ags (props_or_empty (gems ! i)))) \<and>
         out_name (out_properties (produce N krs gems ! i)) = wfs_gen (props_or_empty (gems ! i)) \<and>
         out_geometry (produce N krs gems ! i) = wfs_geometry (gems ! i)"
  using assms
  by (simp add: produce_eq emit_def ars5_of_def county_of_def Let_def)

theorem producer_missing_county_witness:
  "(0::nat) < length ex_gems \<and>
   krs_loop Map.empty ex_krs (ars5_of (ex_gems ! 0)) = None \<and>
   length (produce digits_Number ex_krs ex_gems) = 2 \<and>
   out_county (out_properties (produce digits_Number ex_krs ex_gems ! 0)) = None \<and>
   out_id (out_properties (produce digits_Number ex_krs ex_gems ! 0)) = js ''01001000''"
proof -
  have l: "(0::nat) < length ex_gems" by (simp add: ex_gems_def)
  have k: "krs_loop Map.empty ex_krs (ars5_of (ex_gems ! 0)) = None"
    by (simp add: ex_krs_def ex_gems_def ars5_of_def props_or_empty_def str_or_empty_def
        or_else_def truthy_def pad_start_def js_def Let_def)
  have a: "pad_start 8 (str_or_empty (wfs_ags (props_or_empty (ex_gems ! 0)))) = js ''01001000''"
    by (simp add: ex_gems_def props_or_empty_def str_or_empty_def or_else_def truthy_def
        pad_start_def js_def)
  have n: "length ex_gems = 2" by (simp add: ex_gems_def)
  from producer_missing_county [OF l k, of digits_Number] l k a n show ?thesis by simp
qed

section \<open>The presentation application: general facts\<close>

lemma set_insort_cmp: "set (insort_cmp cmp x xs) = insert x (set xs)"
  by (induction xs) auto

lemma set_js_sort: "set (js_sort cmp xs) = set xs"
  by (induction xs) (simp_all add: js_sort_def set_insort_cmp)

lemma js_sort_Nil: "js_sort cmp [] = []"
  by (simp add: js_sort_def)

lemma combined_ignores:
  "combined h (st\<lparr>query := q\<rparr>) = combined h st"
  "combined h (st\<lparr>showGemeinden := b\<rparr>) = combined h st"
  "combined h (st\<lparr>showOrtsteile := b\<rparr>) = combined h st"
  "combined h (st\<lparr>colorMode := c\<rparr>) = combined h st"
  by (simp_all add: combined_def merged_def)

lemma set_list_base: "set (list_base h st) \<subseteq> set (snd (combined h st))"
  by (auto simp: list_base_def gemeindenOnly_def ortsteileOnly_def split: option.splits if_splits)

lemma listItems_no_match:
  assumes "trim (query st) \<noteq> []"
    and "\<forall>f \<in> set (snd (combined h st)). \<not> matches (query st) f"
  shows "listItems h st = []"
proof -
  from assms(2) set_list_base have "\<forall>f \<in> set (list_base h st). \<not> matches (query st) f"
    by blast
  then have "filter (matches (query st)) (list_base h st) = []"
    by (simp add: filter_empty_conv)
  with assms(1) show ?thesis by (simp add: listItems_def js_sort_Nil)
qed

subsection \<open>The sort as a stable sort by key\<close>

lemma insort_cmp_key:
  assumes "\<And>a b. cmp a b \<le> 0 \<longleftrightarrow> key a \<le> (key b :: rat)"
  shows "insort_cmp cmp x xs = insort_key key x xs"
  by (induction xs) (simp_all add: assms)

lemma js_sort_key:
  assumes "\<And>a b. cmp a b \<le> 0 \<longleftrightarrow> key a \<le> (key b :: rat)"
  shows "js_sort cmp xs = sort_key key xs"
proof -
  have "insort_cmp cmp = insort_key key"
    using insort_cmp_key [of cmp key, OF assms] by (intro ext)
  then show ?thesis by (simp add: js_sort_def sort_key_def)
qed

lemma cmp_pop_desc_key:
  "cmp_pop_desc h a b \<le> 0 \<longleftrightarrow>
     - nullish (pop (h (properties_at a))) (-1) \<le> - nullish (pop (h (properties_at b))) (-1)"
  by (simp add: cmp_pop_desc_def Let_def)

lemma cmp_list_key:
  "cmp_list a b \<le> 0 \<longleftrightarrow>
     - nullish (pop (properties a)) (-1) \<le> - nullish (pop (properties b)) (-1)"
  by (simp add: cmp_list_def)

subsection \<open>The density loop changes the \<open>density\<close> field only\<close>

lemma density_loop_frame:
  "density_loop h arr a = (h a)\<lparr>density := density (density_loop h arr a)\<rparr>"
proof (induction arr arbitrary: h)
  case Nil
  show ?case by simp
next
  case (Cons f arr)
  let ?p = "h (properties_at f)"
  let ?h1 = "if density ?p = None \<and> is_finite (pop ?p) \<and> is_finite (area_km2 ?p)
                \<and> 0 < the (area_km2 ?p)
             then h(properties_at f := ?p\<lparr>density := Some (the (pop ?p) / the (area_km2 ?p))\<rparr>)
             else h"
  have "density_loop ?h1 arr a = (?h1 a)\<lparr>density := density (density_loop ?h1 arr a)\<rparr>"
    by (rule Cons.IH)
  also have "\<dots> = (h a)\<lparr>density := density (density_loop ?h1 arr a)\<rparr>"
    by simp
  finally show ?case by (simp add: Let_def)
qed

lemma density_loop_pop: "pop (density_loop h arr a) = pop (h a)"
  by (subst density_loop_frame) simp

lemma density_loop_kind: "kind (density_loop h arr a) = kind (h a)"
  by (subst density_loop_frame) simp

subsection \<open>The ranks\<close>

lemma rank_loop_pops:
  "map (\<lambda>f. pop (properties f)) (rank_loop h r fs) = map (\<lambda>f. pop (h (properties_at f))) fs"
  by (induction fs arbitrary: r) (simp_all add: Let_def)

lemma rank_loop_length: "length (rank_loop h r fs) = length fs"
  by (induction fs arbitrary: r) (simp_all add: Let_def)

lemma rank_loop_unranked: "map unrank (rank_loop h r fs) = map (view h) fs"
  by (induction fs arbitrary: r) (simp_all add: Let_def unrank_def view_def)

lemma known_simps:
  "known \<lparr>properties = p\<lparr>rank := r\<rparr>, geometry = g\<rparr> \<longleftrightarrow> is_finite (pop p)"
  by (simp add: known_def is_finite_def)

lemma rank_loop_known_ranks_from:
  "map (\<lambda>f. rank (properties f)) (filter known (rank_loop h r fs)) =
     map (\<lambda>i. Some (r + i)) [0 ..< length (filter known (rank_loop h r fs))]"
proof (induction fs arbitrary: r)
  case Nil
  show ?case by simp
next
  case (Cons f fs)
  show ?case
  proof (cases "is_finite (pop (h (properties_at f)))")
    case True
    let ?n = "length (filter known (rank_loop h (Suc r) fs))"
    from True have "map (\<lambda>f. rank (properties f)) (filter known (rank_loop h r (f # fs))) =
        Some r # map (\<lambda>i. Some (Suc r + i)) [0 ..< ?n]"
      using Cons.IH [of "Suc r"] by (simp add: Let_def known_simps)
    also have "\<dots> = map (\<lambda>i. Some (r + i)) [0 ..< Suc ?n]"
      by (simp only: map_upt_Suc) simp
    also have "Suc ?n = length (filter known (rank_loop h r (f # fs)))"
      using True by (simp add: Let_def known_simps)
    finally show ?thesis .
  next
    case False
    then show ?thesis using Cons.IH [of r] by (simp add: Let_def known_simps)
  qed
qed

lemma rank_loop_known_ranks:
  "map (\<lambda>f. rank (properties f)) (filter known (rank_loop h 1 fs)) =
     map Some [1 ..< Suc (length (filter known (rank_loop h 1 fs)))]"
proof -
  let ?n = "length (filter known (rank_loop h 1 fs))"
  have "map (\<lambda>i. Some (1 + i)) [0 ..< ?n] = map Some (map (\<lambda>i. i + 1) [0 ..< ?n])"
    by simp
  also have "map (\<lambda>i. i + 1) [0 ..< ?n] = [1 ..< Suc ?n]"
    by (simp only: map_add_upt) simp
  finally show ?thesis by (simp only: rank_loop_known_ranks_from)
qed

lemma rank_loop_unknown_unranked:
  "f \<in> set (rank_loop h r fs) \<Longrightarrow> \<not> known f \<Longrightarrow> rank (properties f) = None"
  by (induction fs arbitrary: r) (auto simp: Let_def known_def is_finite_def split: if_splits)

lemma rank_loop_known_ranked:
  "f \<in> set (rank_loop h r fs) \<Longrightarrow> known f \<Longrightarrow> rank (properties f) \<noteq> None"
  by (induction fs arbitrary: r) (auto simp: Let_def known_def is_finite_def split: if_splits)

subsection \<open>\<open>combined\<close> of the Leaflet variant: order and ranks\<close>

lemma pop_key_view: "pop_key (view h f) = nullish (pop (h (properties_at f))) (-1)"
  by (simp add: pop_key_def view_def)

lemma combined_snd:
  "snd (combined h st) =
     rank_loop (fst (combined h st)) 1
       (sort_key (\<lambda>f. - nullish (pop (fst (combined h st) (properties_at f))) (-1)) (merged st))"
proof -
  have "js_sort (cmp_pop_desc (density_loop h (merged st))) (merged st) =
        sort_key (\<lambda>f. - nullish (pop (density_loop h (merged st) (properties_at f))) (-1))
          (merged st)"
    by (rule js_sort_key) (rule cmp_pop_desc_key)
  then show ?thesis by (simp add: combined_def Let_def)
qed

lemma combined_unranked:
  "map unrank (snd (combined h st)) =
     map (view (fst (combined h st)))
       (sort_key (\<lambda>f. - nullish (pop (fst (combined h st) (properties_at f))) (-1)) (merged st))"
  by (subst combined_snd) (rule rank_loop_unranked)

lemma pop_key_unrank: "pop_key (unrank f) = pop_key f"
  by (simp add: pop_key_def unrank_def)

lemma combined_pop_keys:
  "map pop_key (snd (combined h st)) =
     map (\<lambda>f. nullish (pop (fst (combined h st) (properties_at f))) (-1))
       (sort_key (\<lambda>f. - nullish (pop (fst (combined h st) (properties_at f))) (-1)) (merged st))"
proof -
  have "map pop_key (snd (combined h st)) = map pop_key (map unrank (snd (combined h st)))"
    by (simp add: pop_key_unrank)
  then show ?thesis by (simp only: combined_unranked) (simp add: pop_key_view)
qed

lemma combined_sorted: "sorted_wrt (\<lambda>a b. pop_key b \<le> pop_key a) (snd (combined h st))"
proof -
  let ?key = "\<lambda>f. nullish (pop (fst (combined h st) (properties_at f))) (-1)"
  let ?s = "sort_key (\<lambda>f. - ?key f) (merged st)"
  have "sorted (map (\<lambda>f. - ?key f) ?s)" by (rule sorted_sort_key)
  then have "sorted_wrt (\<lambda>a b. b \<le> a) (map ?key ?s)"
    by (simp add: sorted_wrt_map)
  then have "sorted_wrt (\<lambda>a b. b \<le> a) (map pop_key (snd (combined h st)))"
    by (simp only: combined_pop_keys)
  then show ?thesis by (simp add: sorted_wrt_map)
qed

lemma combined_mset:
  "mset (map unrank (snd (combined h st))) =
     mset (map (view (fst (combined h st))) (merged st))"
  by (simp only: combined_unranked mset_map mset_sort)

lemma combined_stable:
  "filter (\<lambda>f. pop_key f = k) (map unrank (snd (combined h st))) =
     filter (\<lambda>f. pop_key f = k) (map (view (fst (combined h st))) (merged st))"
proof -
  let ?key = "\<lambda>f. nullish (pop (fst (combined h st) (properties_at f))) (-1)"
  have "filter (\<lambda>f. - ?key f = - k) (sort_key (\<lambda>f. - ?key f) (merged st)) =
        filter (\<lambda>f. - ?key f = - k) (merged st)"
    by (rule sort_key_stable)
  then show ?thesis
    by (simp only: combined_unranked filter_map comp_def pop_key_view) simp
qed

lemma sorted_known_first:
  assumes "sorted_wrt (\<lambda>a b. pop_key b \<le> pop_key a) xs"
    and "\<forall>f \<in> set xs. known f \<longrightarrow> 0 \<le> pop_key f"
  shows "xs = filter known xs @ filter (\<lambda>f. \<not> known f) xs"
  using assms
proof (induction xs)
  case Nil
  show ?case by simp
next
  case (Cons x xs)
  then have ih: "xs = filter known xs @ filter (\<lambda>f. \<not> known f) xs" by simp
  show ?case
  proof (cases "known x")
    case True
    with ih show ?thesis by simp
  next
    case False
    then have "pop_key x = -1" by (simp add: known_def pop_key_def nullish_def)
    with Cons.prems have "\<forall>y \<in> set xs. \<not> known y" by fastforce
    then have "filter known xs = []" "filter (\<lambda>f. \<not> known f) xs = xs"
      by (simp_all add: filter_empty_conv filter_id_conv)
    with False show ?thesis by simp
  qed
qed

text \<open>
  The Leaflet variant does what is claimed in C1: the array is a rearrangement of the
  merged features, in descending order of population (unknown as -1), features of equal
  population in their input order; the features of known population carry the ranks
  1 to N in that order and the others no rank; and when no population is negative, the
  features of unknown population are last.
\<close>

lemma leaflet_combined_ranked:
  "mset (map unrank (snd (combined h st))) = mset (map (view (fst (combined h st))) (merged st))"
  "sorted_wrt (\<lambda>a b. pop_key b \<le> pop_key a) (snd (combined h st))"
  "filter (\<lambda>f. pop_key f = k) (map unrank (snd (combined h st))) =
     filter (\<lambda>f. pop_key f = k) (map (view (fst (combined h st))) (merged st))"
  "map (\<lambda>f. rank (properties f)) (filter known (snd (combined h st))) =
     map Some [1 ..< Suc (length (filter known (snd (combined h st))))]"
  "f \<in> set (snd (combined h st)) \<Longrightarrow> \<not> known f \<Longrightarrow> rank (properties f) = None"
  "\<forall>f \<in> set (snd (combined h st)). known f \<longrightarrow> 0 \<le> pop_key f \<Longrightarrow>
     snd (combined h st) =
       filter known (snd (combined h st)) @ filter (\<lambda>f. \<not> known f) (snd (combined h st))"
proof -
  show "mset (map unrank (snd (combined h st))) =
          mset (map (view (fst (combined h st))) (merged st))"
    by (rule combined_mset)
  show "sorted_wrt (\<lambda>a b. pop_key b \<le> pop_key a) (snd (combined h st))"
    by (rule combined_sorted)
  show "filter (\<lambda>f. pop_key f = k) (map unrank (snd (combined h st))) =
     filter (\<lambda>f. pop_key f = k) (map (view (fst (combined h st))) (merged st))"
    by (rule combined_stable)
  show "map (\<lambda>f. rank (properties f)) (filter known (snd (combined h st))) =
     map Some [1 ..< Suc (length (filter known (snd (combined h st))))]"
    by (subst (1 2) combined_snd) (rule rank_loop_known_ranks)
  show "f \<in> set (snd (combined h st)) \<Longrightarrow> \<not> known f \<Longrightarrow> rank (properties f) = None"
    by (subst (asm) combined_snd) (rule rank_loop_unknown_unranked)
  show "\<forall>f \<in> set (snd (combined h st)). known f \<longrightarrow> 0 \<le> pop_key f \<Longrightarrow>
     snd (combined h st) =
       filter known (snd (combined h st)) @ filter (\<lambda>f. \<not> known f) (snd (combined h st))"
    by (rule sorted_known_first [OF combined_sorted])
qed

subsection \<open>\<open>colorForPop\<close>\<close>

text \<open>
  \<open>colorForPop\<close> does what is claimed in C2: ten distinct colours, the colour of a
  population of at least zero is the one of its band, a band ends at its breakpoint
  inclusively, and an unknown or negative population has a gray that is none of the ten.
\<close>

lemma colorForPop_bands:
  "colorForPop None = ''#cccccc''"
  "p < 0 \<Longrightarrow> colorForPop (Some p) = ''#cccccc''"
  "0 \<le> p \<Longrightarrow> colorForPop (Some p) = COLORS ! band p"
  "band p < length COLORS"
  "length COLORS = 10" "distinct COLORS" "''#cccccc'' \<notin> set COLORS"
proof -
  show "colorForPop None = ''#cccccc''" by (simp add: colorForPop_def nullish_def)
  show "p < 0 \<Longrightarrow> colorForPop (Some p) = ''#cccccc''"
    by (simp add: colorForPop_def nullish_def)
  show "0 \<le> p \<Longrightarrow> colorForPop (Some p) = COLORS ! band p"
    by (simp add: colorForPop_def nullish_def band_def breakpoints_def eval_nat_numeral)
  have "length (filter (\<lambda>b. b < p) breakpoints) \<le> length breakpoints" by (rule length_filter_le)
  then show "band p < length COLORS" by (simp add: band_def breakpoints_def COLORS_def)
  show "length COLORS = 10" "distinct COLORS" "''#cccccc'' \<notin> set COLORS"
    by (simp_all add: COLORS_def)
qed

lemma colorForPop_boundary:
  "colorForPop (Some 5000) = COLORS ! 0" "colorForPop (Some 5001) = COLORS ! 1"
  by (simp_all add: colorForPop_def nullish_def)

subsection \<open>Loading in the Leaflet variant\<close>

lemma promise_all_fulfilled: "promise_all (map Fulfilled vs) = Fulfilled vs"
  by (induction vs) (simp_all add: then_p_def)

lemma chunk_promise_result: "chunk_promise net c = Fulfilled (chunk_result net c)"
  by (simp add: chunk_promise_def chunk_result_def then_p_def catch_p_def json_def
      split: promise.splits option.splits)

lemma flat_features_collections:
  "JsonNull \<notin> set parts \<Longrightarrow> flat_features parts = Some (concat (map features_of parts))"
  by (induction parts) (auto simp: features_of_def split: json_value.splits)

lemma flat_features_null: "JsonNull \<in> set parts \<Longrightarrow> flat_features parts = None"
  by (induction parts) (auto split: json_value.splits)

lemma gemeinden_chain_settled:
  "gemeinden_chain net =
     (case flat_features (map (chunk_result net) codes) of
        None \<Rightarrow> Rejected
      | Some all_features \<Rightarrow> Fulfilled (\<lambda>st. st\<lparr>gemeinden := Some all_features\<rparr>))"
proof -
  have "map (chunk_promise net) codes = map Fulfilled (map (chunk_result net) codes)"
    by (simp add: chunk_promise_result)
  then show ?thesis
    by (simp only: gemeinden_chain_def promise_all_fulfilled) (simp add: then_p_def)
qed

lemma ortsteile_chain_fulfilled:
  "ortsteile_chain net =
     Fulfilled (case then_p (net ortsteile_url) json of
                  Rejected \<Rightarrow> (\<lambda>st. st)
                | Fulfilled d \<Rightarrow> (\<lambda>st. st\<lparr>ortsteile := loaded d\<rparr>))"
  by (simp add: ortsteile_chain_def then_p_def catch_p_def split: promise.splits)

text \<open>
  The Leaflet variant guards its fetches as claimed in C6. A chunk that cannot be fetched,
  is not \<open>ok\<close> or is not JSON contributes no feature, and when the district file cannot
  be fetched or is not JSON the district collection stays as it was. When every chunk
  that is answered with JSON is a collection, no chain ends rejected and the chunks are
  concatenated in the order of the codes. A chunk answered with the JSON value
  \<open>null\<close> is not caught: the last handler throws, the rejection is unhandled and the
  municipality collection is not set.
\<close>

lemma leaflet_load_guarded:
  "net (chunk_url c) = Rejected \<Longrightarrow> chunk_result net c = FeatureCollection []"
  "net (chunk_url c) = Fulfilled r \<Longrightarrow> \<not> ok r \<or> body r = None \<Longrightarrow>
     chunk_result net c = FeatureCollection []"
  "JsonNull \<notin> set (map (chunk_result net) codes) \<Longrightarrow>
     snd (load net st) = 0 \<and>
     gemeinden (fst (load net st)) =
       Some (concat (map (\<lambda>c. features_of (chunk_result net c)) codes))"
  "JsonNull \<in> set (map (chunk_result net) codes) \<Longrightarrow>
     snd (load net st) = 1 \<and> gemeinden (fst (load net st)) = gemeinden st"
  "then_p (net ortsteile_url) json = Rejected \<Longrightarrow> ortsteile (fst (load net st)) = ortsteile st"
  "then_p (net ortsteile_url) json = Fulfilled d \<Longrightarrow> ortsteile (fst (load net st)) = loaded d"
proof -
  show "net (chunk_url c) = Rejected \<Longrightarrow> chunk_result net c = FeatureCollection []"
    by (simp add: chunk_result_def)
  show "net (chunk_url c) = Fulfilled r \<Longrightarrow> \<not> ok r \<or> body r = None \<Longrightarrow>
     chunk_result net c = FeatureCollection []"
    by (auto simp: chunk_result_def)
  show "snd (load net st) = 0 \<and>
     gemeinden (fst (load net st)) =
       Some (concat (map (\<lambda>c. features_of (chunk_result net c)) codes))"
    if "JsonNull \<notin> set (map (chunk_result net) codes)"
    using flat_features_collections [OF that]
    by (simp add: load_def settle_def gemeinden_chain_settled ortsteile_chain_fulfilled comp_def
        split: promise.splits)
  show "snd (load net st) = 1 \<and> gemeinden (fst (load net st)) = gemeinden st"
    if "JsonNull \<in> set (map (chunk_result net) codes)"
    using flat_features_null [OF that]
    by (simp add: load_def settle_def gemeinden_chain_settled ortsteile_chain_fulfilled
        split: promise.splits)
  show "then_p (net ortsteile_url) json = Rejected \<Longrightarrow>
      ortsteile (fst (load net st)) = ortsteile st"
    by (simp add: load_def settle_def gemeinden_chain_settled ortsteile_chain_fulfilled
        split: promise.splits option.splits)
  show "then_p (net ortsteile_url) json = Fulfilled d \<Longrightarrow>
      ortsteile (fst (load net st)) = loaded d"
    by (simp add: load_def settle_def gemeinden_chain_settled ortsteile_chain_fulfilled
        split: promise.splits option.splits)
qed

subsection \<open>The list of the Leaflet variant\<close>

lemma set_listItems: "set (listItems h st) \<subseteq> set (list_base h st)"
  by (auto simp: listItems_def set_js_sort Let_def)

lemma list_base_kind:
  "f \<in> set (list_base h st) \<Longrightarrow>
     kind (properties f) = (if showGemeinden st then Gemeinde else Ortsteil)"
  by (auto simp: list_base_def gemeindenOnly_def ortsteileOnly_def split: if_splits option.splits)

lemma list_base_sorted: "sorted (map (\<lambda>f. - pop_key f) (list_base h st))"
proof -
  have "sorted_wrt (\<lambda>a b. pop_key b \<le> pop_key a) (filter P (snd (combined h st)))" for P
    by (rule sorted_wrt_filter) (rule combined_sorted)
  then have "sorted_wrt (\<lambda>a b. pop_key b \<le> pop_key a) (list_base h st)"
    by (simp add: list_base_def gemeindenOnly_def ortsteileOnly_def)
  then show ?thesis by (simp add: sorted_wrt_map)
qed

text \<open>
  An empty query, or one of white space only, gives the whole active collection, in the
  ranked order.
\<close>

lemma listItems_empty_query:
  assumes "trim (query st) = []"
  shows "listItems h st = list_base h st"
proof -
  have "js_sort cmp_list (list_base h st) = sort_key (\<lambda>f. - pop_key f) (list_base h st)"
    by (rule js_sort_key) (simp add: cmp_list_def pop_key_def)
  also have "\<dots> = list_base h st"
    by (rule sort_key_id_if_sorted) (rule list_base_sorted)
  finally show ?thesis using assms by (simp add: listItems_def)
qed

lemma listItems_ignores_showOrtsteile:
  "listItems h (st\<lparr>showOrtsteile := b\<rparr>) = listItems h st"
  by (simp add: listItems_def list_base_def gemeindenOnly_def ortsteileOnly_def combined_ignores)

lemma ml_combined_ignores:
  "ml_combined h (st\<lparr>showGemeinden := a\<rparr>) = ml_combined h st"
  "ml_combined h (st\<lparr>showOrtsteile := b\<rparr>) = ml_combined h st"
  by (simp_all add: ml_combined_def merged_def)

lemma ml_listItems_ignores_toggles:
  "ml_listItems h (setShowGemeinden a (setShowOrtsteile b st)) = ml_listItems h st"
proof -
  have "ml_combined h (setShowGemeinden a (setShowOrtsteile b st)) = ml_combined h st"
    by (simp add: ml_combined_def merged_def setShowGemeinden_def setShowOrtsteile_def)
  then show ?thesis
    by (simp add: ml_listItems_def) (simp add: setShowGemeinden_def setShowOrtsteile_def)
qed

section \<open>The presentation application: the two variants at concrete inputs\<close>

lemma ex_combined:
  "map summary (snd (combined ex_store ex_state)) =
     [(js ''a'', Some 50000, Some 1), (js ''c'', Some 20000, Some 2),
      (js ''d'', Some 20000, Some 3), (js ''b'', None, None)]"
  by (simp add: combined_def merged_def ex_state_def initial_state_def ex_refs_def ex_store_def
      ex_props_def js_sort_def cmp_pop_desc_def nullish_def is_finite_def summary_def Let_def)

text \<open>
  C1. The MapLibre variant sorts ascending: for the populations 50000, unknown, 20000,
  20000 (features a, b, c, d) rank 1 goes to c, rank 2 to d and rank 3 to a, where the
  claim gives a, c, d the ranks 1, 2, 3.
\<close>

theorem ml_combined_ranks_ascending:
  "map summary (ml_combined ex_store ex_state) =
     [(js ''c'', Some 20000, Some 1), (js ''d'', Some 20000, Some 2),
      (js ''a'', Some 50000, Some 3), (js ''b'', None, None)]"
  by (simp add: ml_combined_def merged_def ex_state_def initial_state_def ex_refs_def
      ex_store_def ex_props_def js_sort_def ml_copy_def ml_cmp_def nullish_def
      truthy_number_def summary_def Let_def)

text \<open>
  C2. The step expression of the MapLibre variant gives the population 5000 the colour of
  the second band, and has no colour for an unknown population and the first colour for a
  negative one; \<open>colorForPop\<close> gives 5000 the first colour.
\<close>

theorem colorExpr_boundary:
  "evaluate colorExpr (Some 5000) = Some ''#cc0000'' \<and>
   evaluate colorExpr (Some 4999) = Some ''#7f0000'' \<and>
   evaluate colorExpr None = None \<and>
   evaluate colorExpr (Some (-3)) = Some ''#7f0000'' \<and>
   colorForPop (Some 5000) = ''#7f0000''"
  by (simp add: colorExpr_def colorForPop_def COLORS_def nullish_def)

lemma norm_Muenchen:
  "norm Muenchen = js ''munchen''" "norm (js ''muenchen'') = js ''muenchen''"
  by (simp_all add: Muenchen_def norm_def toLowerCase_def to_lower_unit_def normalize_NFD_def
      nfd_unit_def latin1_decomposition_def is_diacritic_def replace_unit_def js_def)

lemma city_combined:
  "map summary (snd (combined city_store city_state)) =
     [(js ''09162000'', Some 1500000, Some 1), (js ''0916200001'', Some 20000, Some 2)]"
  by (simp add: combined_def merged_def city_state_def initial_state_def ex_refs_def
      city_store_def ex_props_def js_sort_def cmp_pop_desc_def nullish_def is_finite_def
      summary_def Let_def)

text \<open>
  C3. \<open>norm\<close> removes the diaeresis before its replacements run, so the name becomes
  \<open>munchen\<close>, which does not contain \<open>muenchen\<close>: the query \<open>muenchen\<close> finds
  neither the municipality nor the district of that name, in either variant.
\<close>

theorem query_muenchen_no_match:
  "norm Muenchen = js ''munchen'' \<and>
   \<not> m_includes (js ''muenchen'') Muenchen \<and>
   m_includes (js ''munchen'') Muenchen \<and>
   listItems city_store (setQuery (js ''muenchen'') city_state) = [] \<and>
   listItems city_store
     (setShowGemeinden False (setQuery (js ''muenchen'') city_state)) = [] \<and>
   ml_listItems city_store (setQuery (js ''muenchen'') city_state) = []"
proof -
  have n: "\<not> m_includes (js ''muenchen'') Muenchen" "m_includes (js ''munchen'') Muenchen"
    by (simp_all add: m_includes_def norm_Muenchen)
       (simp_all add: js_def norm_def toLowerCase_def to_lower_unit_def normalize_NFD_def
          nfd_unit_def latin1_decomposition_def is_diacritic_def replace_unit_def)
  have q: "trim (js ''muenchen'') = js ''muenchen''"
    by (simp add: trim_def js_def is_space_def)
  have a: "\<not> m_includes (js ''muenchen'') (js ''09162000'')"
    by (simp add: m_includes_def js_def norm_def toLowerCase_def to_lower_unit_def
        normalize_NFD_def nfd_unit_def latin1_decomposition_def is_diacritic_def replace_unit_def)
  have nm: "map (\<lambda>f. (name (properties f), county (properties f), ags (properties f)))
              (snd (combined city_store city_state)) =
            [(Muenchen, Some Muenchen, Some (js ''09162000'')), (Muenchen, None, None)]"
    by (simp add: combined_def merged_def city_state_def initial_state_def ex_refs_def
      city_store_def ex_props_def js_sort_def cmp_pop_desc_def nullish_def is_finite_def Let_def)
  have no: "filter (matches (js ''muenchen'')) (snd (combined city_store city_state)) = []"
  proof -
    have "\<not> matches (js ''muenchen'') f"
      if f: "f \<in> set (snd (combined city_store city_state))" for f
    proof -
      from f have "(name (properties f), county (properties f), ags (properties f)) \<in>
          set (map (\<lambda>f. (name (properties f), county (properties f), ags (properties f)))
                 (snd (combined city_store city_state)))"
        unfolding set_map by (rule imageI)
      then have "(name (properties f), county (properties f), ags (properties f)) \<in>
          {(Muenchen, Some Muenchen, Some (js ''09162000'')), (Muenchen, None, None)}"
        by (simp only: nm) simp
      then show ?thesis using n(1) a by (auto simp: matches_def truthy_def Let_def)
    qed
    then show ?thesis by (simp add: filter_empty_conv)
  qed
  have t: "trim (query (setQuery (js ''muenchen'') city_state)) \<noteq> []"
          "trim (query (setShowGemeinden False (setQuery (js ''muenchen'') city_state))) \<noteq> []"
    by (simp_all add: setQuery_def setShowGemeinden_def q) (simp_all add: js_def)
  have l1: "listItems city_store (setQuery (js ''muenchen'') city_state) = []"
    by (rule listItems_no_match [OF t(1)])
       (use no in \<open>simp add: combined_ignores filter_empty_conv setQuery_def\<close>)
  have l2: "listItems city_store
     (setShowGemeinden False (setQuery (js ''muenchen'') city_state)) = []"
    by (rule listItems_no_match [OF t(2)])
       (use no in \<open>simp add: combined_ignores filter_empty_conv setQuery_def setShowGemeinden_def\<close>)
  have l3: "ml_listItems city_store (setQuery (js ''muenchen'') city_state) = []"
    by (simp add: ml_listItems_def ml_combined_def merged_def setQuery_def city_state_def
        initial_state_def ex_refs_def city_store_def ex_props_def js_sort_def ml_copy_def
        ml_cmp_def nullish_def truthy_number_def truthy_def nameMatch_def toLowerCase_def
        to_lower_unit_def Muenchen_def js_def Let_def)
  from norm_Muenchen(1) n l1 l2 l3 show ?thesis by simp
qed

text \<open>
  C6. In the MapLibre variant no chain has a rejection handler: when the municipality
  file cannot be fetched the chain ends rejected and unhandled, and the municipality
  collection stays absent; the district collection is still loaded.
\<close>

theorem ml_load_unhandled_rejection:
  "ml_load net_down ml_initial_state =
     (ml_initial_state\<lparr>ortsteile := Some [7, 8]\<rparr>, 1)"
  by (simp add: ml_load_def settle_def ml_gemeinden_chain_def ml_ortsteile_chain_def then_p_def
      json_def loaded_def net_down_def gemeinden_url_def ortsteile_url_def js_def)

text \<open>
  C8. The density loop of the Leaflet variant writes to the properties object of the
  fetched feature: after \<open>combined\<close> has run, the fetched municipality with population
  1500000 and area 300 has the density 5000 it did not have before.
\<close>

theorem combined_writes_fetched_feature:
  "density (city_store 0) = None \<and>
   density (fst (combined city_store city_state) 0) = Some 5000 \<and>
   fst (combined city_store city_state) \<noteq> city_store"
proof -
  have a: "density (city_store 0) = None"
    by (simp add: city_store_def ex_props_def)
  have b: "density (fst (combined city_store city_state) 0) = Some 5000"
    by (simp add: combined_def merged_def city_state_def initial_state_def ex_refs_def
        city_store_def ex_props_def is_finite_def Let_def)
  from a b have "fst (combined city_store city_state) \<noteq> city_store" by auto
  with a b show ?thesis by simp
qed

section \<open>The visibility toggles\<close>

lemma combined_store_frame:
  "fst (combined h st) a = (h a)\<lparr>density := density (fst (combined h st) a)\<rparr>"
proof -
  have "fst (combined h st) = density_loop h (merged st)" by (simp add: combined_def Let_def)
  then show ?thesis using density_loop_frame [of h "merged st" a] by simp
qed

subsection \<open>Rendering again\<close>

lemma density_loop_pointwise:
  "density_loop h arr a =
     (if a \<in> properties_at ` set arr \<and> needs_density (h a) then fill_density (h a) else h a)"
proof (induction arr arbitrary: h)
  case Nil
  show ?case by simp
next
  case (Cons f arr)
  let ?h1 = "if needs_density (h (properties_at f))
             then h(properties_at f := fill_density (h (properties_at f))) else h"
  have n: "\<not> needs_density (fill_density p)" for p
    by (simp add: needs_density_def fill_density_def)
  have "density_loop h (f # arr) a = density_loop ?h1 arr a"
    by (simp add: Let_def needs_density_def fill_density_def)
  also have "\<dots> =
      (if a \<in> properties_at ` set arr \<and> needs_density (?h1 a) then fill_density (?h1 a)
       else ?h1 a)"
    by (rule Cons.IH)
  also have "\<dots> =
      (if a \<in> properties_at ` set (f # arr) \<and> needs_density (h a) then fill_density (h a)
       else h a)"
    using n by (cases "a = properties_at f") auto
  finally show ?case .
qed

lemma density_loop_idem: "density_loop (density_loop h arr) arr = density_loop h arr"
proof
  fix a
  have n: "\<not> needs_density (fill_density p)" for p
    by (simp add: needs_density_def fill_density_def)
  show "density_loop (density_loop h arr) arr a = density_loop h arr a"
    by (subst density_loop_pointwise) (simp add: density_loop_pointwise n)
qed

text \<open>
  After \<open>combined\<close> has run once, running it again on the store it left, for a state
  with the same fetched collections, changes nothing and returns the same array.
\<close>

lemma combined_again:
  assumes "merged st' = merged st"
  shows "combined (fst (combined h st)) st' = combined h st"
  using assms by (simp add: combined_def Let_def density_loop_idem)

lemma merged_toggles:
  "merged (setShowGemeinden v st) = merged st" "merged (setShowOrtsteile v st) = merged st"
  by (simp_all add: merged_def setShowGemeinden_def setShowOrtsteile_def)

lemma keeps_fun: "keeps q = (\<lambda>f. trim q = [] \<or> matches q f)"
  by (rule ext) (simp add: keeps_def)

lemma listItems_closed_form:
  "listItems h st = filter (keeps (query st)) (list_base h st)"
proof -
  have s: "sorted (map (\<lambda>f. - pop_key f) (filter (keeps (query st)) (list_base h st)))"
  proof -
    have "sorted_wrt (\<lambda>a b. - pop_key a \<le> - pop_key b) (list_base h st)"
      using list_base_sorted [of h st] by (simp add: sorted_wrt_map)
    then have "sorted_wrt (\<lambda>a b. - pop_key a \<le> - pop_key b)
                 (filter (keeps (query st)) (list_base h st))"
      by (rule sorted_wrt_filter)
    then show ?thesis by (simp add: sorted_wrt_map)
  qed
  have f: "(if length (trim (query st)) = 0 then list_base h st
            else filter (matches (query st)) (list_base h st)) =
           filter (keeps (query st)) (list_base h st)"
    by (simp add: keeps_fun)
  have "js_sort cmp_list (filter (keeps (query st)) (list_base h st)) =
        sort_key (\<lambda>f. - pop_key f) (filter (keeps (query st)) (list_base h st))"
    by (rule js_sort_key) (simp add: cmp_list_def pop_key_def)
  also have "\<dots> = filter (keeps (query st)) (list_base h st)"
    by (rule sort_key_id_if_sorted) (rule s)
  finally show ?thesis by (simp only: listItems_def Let_def f)
qed

lemma list_base_closed_form:
  "list_base h st =
     (if showGemeinden st
      then (if gemeinden st = None then [] else of_kind Gemeinde (snd (combined h st)))
      else (if ortsteile st = None then [] else of_kind Ortsteil (snd (combined h st))))"
  by (simp add: list_base_def gemeindenOnly_def ortsteileOnly_def of_kind_def)

lemma views_again:
  assumes "merged st' = merged st"
  shows "listItems (fst (combined h st)) st' = listItems h st'"
    and "gemeinden_layer (fst (combined h st)) st' = gemeinden_layer h st'"
    and "ortsteile_layer (fst (combined h st)) st' = ortsteile_layer h st'"
proof -
  have "combined h st' = combined h st" using assms by (simp add: combined_def)
  with combined_again [OF assms, of h]
  have c: "combined (fst (combined h st)) st' = combined h st'" by simp
  show "listItems (fst (combined h st)) st' = listItems h st'"
    by (simp add: listItems_def list_base_def gemeindenOnly_def ortsteileOnly_def c)
  show "gemeinden_layer (fst (combined h st)) st' = gemeinden_layer h st'"
    by (simp add: gemeinden_layer_def gemeindenOnly_def c)
  show "ortsteile_layer (fst (combined h st)) st' = ortsteile_layer h st'"
    by (simp add: ortsteile_layer_def ortsteileOnly_def c)
qed

lemma city_list_gemeinden_on:
  "map (\<lambda>f. (id_prop (properties f), kind (properties f))) (listItems city_store city_state) =
     [(js ''09162000'', Gemeinde)]"
proof -
  have t: "trim (query city_state) = []"
    by (simp add: city_state_def initial_state_def trim_def)
  have b: "list_base city_store city_state =
          filter (\<lambda>f. kind (properties f) = Gemeinde) (snd (combined city_store city_state))"
    by (simp add: list_base_def gemeindenOnly_def) (simp add: city_state_def initial_state_def)
  have c: "map (\<lambda>f. (id_prop (properties f), kind (properties f)))
             (filter (\<lambda>f. kind (properties f) = Gemeinde)
                (snd (combined city_store city_state))) =
      [(js ''09162000'', Gemeinde)]"
    by (simp add: combined_def merged_def city_state_def initial_state_def ex_refs_def
        city_store_def ex_props_def js_sort_def cmp_pop_desc_def nullish_def is_finite_def
        Let_def)
  show ?thesis by (simp only: listItems_empty_query [OF t] b c)
qed

lemma city_list_gemeinden_off:
  "map (\<lambda>f. (id_prop (properties f), kind (properties f)))
     (listItems city_store (setShowGemeinden False city_state)) =
     [(js ''0916200001'', Ortsteil)]"
proof -
  have t: "trim (query (setShowGemeinden False city_state)) = []"
    by (simp add: setShowGemeinden_def city_state_def initial_state_def trim_def)
  have b: "list_base city_store (setShowGemeinden False city_state) =
          filter (\<lambda>f. kind (properties f) = Ortsteil) (snd (combined city_store city_state))"
    by (simp add: list_base_def ortsteileOnly_def setShowGemeinden_def combined_ignores)
       (simp add: city_state_def initial_state_def)
  have c: "map (\<lambda>f. (id_prop (properties f), kind (properties f)))
             (filter (\<lambda>f. kind (properties f) = Ortsteil)
                (snd (combined city_store city_state))) =
      [(js ''0916200001'', Ortsteil)]"
    by (simp add: combined_def merged_def city_state_def initial_state_def ex_refs_def
        city_store_def ex_props_def js_sort_def cmp_pop_desc_def nullish_def is_finite_def
        Let_def)
  show ?thesis by (simp only: listItems_empty_query [OF t] b c)
qed

text \<open>
  C7, as stated, fails in the Leaflet variant: with both toggles disabled the list shows
  the district, whose toggle is disabled and whose layer is not rendered.
\<close>

theorem both_toggles_off_list_shows_ortsteile:
  "showGemeinden (setShowGemeinden False city_state) = False \<and>
   showOrtsteile (setShowGemeinden False city_state) = False \<and>
   ortsteile_layer city_store (setShowGemeinden False city_state) = None \<and>
   map (\<lambda>f. (id_prop (properties f), kind (properties f)))
     (listItems city_store (setShowGemeinden False city_state)) =
     [(js ''0916200001'', Ortsteil)]"
proof -
  have s1: "showGemeinden (setShowGemeinden False city_state) = False"
    by (simp add: setShowGemeinden_def)
  have s2: "showOrtsteile (setShowGemeinden False city_state) = False"
    by (simp add: setShowGemeinden_def city_state_def initial_state_def)
  have s3: "ortsteile_layer city_store (setShowGemeinden False city_state) = None"
    by (simp add: ortsteile_layer_def s2)
  show ?thesis by (rule conjI [OF s1 conjI [OF s2 conjI [OF s3 city_list_gemeinden_off]]])
qed

text \<open>
  C7, amended. In the Leaflet variant the list shows the features of one dataset that the
  query keeps: those of the municipalities while the municipality toggle is enabled, and
  those of the districts while it is disabled, whatever the district toggle. In both
  variants the layer of a dataset shows the features of that dataset while its toggle is
  enabled and the dataset is loaded, and is not rendered otherwise. The ranked array
  holds every fetched feature. A toggle changes neither fetched collection, and when a
  toggle is disabled and enabled again the list and the layers are again what they were,
  computed from the fetched data.
\<close>

theorem list_follows_gemeinden_toggle:
  "listItems h st =
     filter (keeps (query st))
       (if showGemeinden st
        then (if gemeinden st = None then [] else of_kind Gemeinde (snd (combined h st)))
        else (if ortsteile st = None then [] else of_kind Ortsteil (snd (combined h st)))) \<and>
   listItems h (setShowOrtsteile b st) = listItems h st \<and>
   gemeinden_layer h st =
     (if showGemeinden st \<and> gemeinden st \<noteq> None
      then Some (of_kind Gemeinde (snd (combined h st))) else None) \<and>
   ortsteile_layer h st =
     (if showOrtsteile st \<and> ortsteile st \<noteq> None
      then Some (of_kind Ortsteil (snd (combined h st))) else None) \<and>
   ml_gemeinden_layer h st =
     (if showGemeinden st \<and> gemeinden st \<noteq> None
      then Some (of_kind Gemeinde (ml_combined h st)) else None) \<and>
   ml_ortsteile_layer h st =
     (if showOrtsteile st \<and> ortsteile st \<noteq> None
      then Some (of_kind Ortsteil (ml_combined h st)) else None) \<and>
   mset (map unrank (snd (combined h st))) =
     mset (map (view (fst (combined h st))) (merged st)) \<and>
   gemeinden (setShowGemeinden v st) = gemeinden st \<and>
   ortsteile (setShowGemeinden v st) = ortsteile st \<and>
   gemeinden (setShowOrtsteile v st) = gemeinden st \<and>
   ortsteile (setShowOrtsteile v st) = ortsteile st \<and>
   (showGemeinden st \<longrightarrow>
      listItems (fst (combined h st)) (setShowGemeinden True (setShowGemeinden False st)) =
        listItems h st \<and>
      gemeinden_layer (fst (combined h st)) (setShowGemeinden True (setShowGemeinden False st)) =
        gemeinden_layer h st) \<and>
   (showOrtsteile st \<longrightarrow>
      listItems (fst (combined h st)) (setShowOrtsteile True (setShowOrtsteile False st)) =
        listItems h st \<and>
      ortsteile_layer (fst (combined h st)) (setShowOrtsteile True (setShowOrtsteile False st)) =
        ortsteile_layer h st)"
proof -
  have l: "listItems h st =
     filter (keeps (query st))
       (if showGemeinden st
        then (if gemeinden st = None then [] else of_kind Gemeinde (snd (combined h st)))
        else (if ortsteile st = None then [] else of_kind Ortsteil (snd (combined h st))))"
    by (simp only: listItems_closed_form list_base_closed_form)
  have o: "listItems h (setShowOrtsteile b st) = listItems h st"
    by (simp add: setShowOrtsteile_def listItems_ignores_showOrtsteile)
  have layers:
    "gemeinden_layer h st =
       (if showGemeinden st \<and> gemeinden st \<noteq> None
        then Some (of_kind Gemeinde (snd (combined h st))) else None)"
    "ortsteile_layer h st =
       (if showOrtsteile st \<and> ortsteile st \<noteq> None
        then Some (of_kind Ortsteil (snd (combined h st))) else None)"
    "ml_gemeinden_layer h st =
       (if showGemeinden st \<and> gemeinden st \<noteq> None
        then Some (of_kind Gemeinde (ml_combined h st)) else None)"
    "ml_ortsteile_layer h st =
       (if showOrtsteile st \<and> ortsteile st \<noteq> None
        then Some (of_kind Ortsteil (ml_combined h st)) else None)"
    by (simp_all add: gemeinden_layer_def ortsteile_layer_def ml_gemeinden_layer_def
        ml_ortsteile_layer_def gemeindenOnly_def ortsteileOnly_def gemeindenFC_def
        ortsteileFC_def of_kind_def)
  have data: "gemeinden (setShowGemeinden v st) = gemeinden st"
    "ortsteile (setShowGemeinden v st) = ortsteile st"
    "gemeinden (setShowOrtsteile v st) = gemeinden st"
    "ortsteile (setShowOrtsteile v st) = ortsteile st"
    by (simp_all add: setShowGemeinden_def setShowOrtsteile_def)
  have g: "listItems (fst (combined h st)) (setShowGemeinden True (setShowGemeinden False st)) =
        listItems h st \<and>
      gemeinden_layer (fst (combined h st)) (setShowGemeinden True (setShowGemeinden False st)) =
        gemeinden_layer h st" if "showGemeinden st"
  proof -
    from that have "setShowGemeinden True (setShowGemeinden False st) = st"
      by (simp add: setShowGemeinden_def)
    then show ?thesis using views_again [of st st h] by simp
  qed
  have r: "listItems (fst (combined h st)) (setShowOrtsteile True (setShowOrtsteile False st)) =
        listItems h st \<and>
      ortsteile_layer (fst (combined h st)) (setShowOrtsteile True (setShowOrtsteile False st)) =
        ortsteile_layer h st" if "showOrtsteile st"
  proof -
    from that have "setShowOrtsteile True (setShowOrtsteile False st) = st"
      by (simp add: setShowOrtsteile_def)
    then show ?thesis using views_again [of st st h] by simp
  qed
  from l o layers data combined_mset [of h st] g r show ?thesis by blast
qed

theorem list_follows_gemeinden_toggle_witness:
  "showGemeinden city_state \<and>
   map (\<lambda>f. (id_prop (properties f), kind (properties f))) (listItems city_store city_state) =
     [(js ''09162000'', Gemeinde)] \<and>
   gemeinden_layer city_store city_state =
     Some (of_kind Gemeinde (snd (combined city_store city_state))) \<and>
   gemeinden_layer city_store (setShowGemeinden False city_state) = None \<and>
   map (\<lambda>f. (id_prop (properties f), kind (properties f)))
     (listItems city_store (setShowGemeinden False city_state)) =
     [(js ''0916200001'', Ortsteil)] \<and>
   listItems (fst (combined city_store city_state))
     (setShowGemeinden True (setShowGemeinden False city_state)) =
     listItems city_store city_state \<and>
   gemeinden_layer (fst (combined city_store city_state))
     (setShowGemeinden True (setShowGemeinden False city_state)) =
     gemeinden_layer city_store city_state \<and>
   showOrtsteile (setShowOrtsteile True city_state) \<and>
   ortsteile_layer city_store (setShowOrtsteile True city_state) =
     Some (of_kind Ortsteil (snd (combined city_store (setShowOrtsteile True city_state)))) \<and>
   ortsteile_layer (fst (combined city_store (setShowOrtsteile True city_state)))
     (setShowOrtsteile True (setShowOrtsteile False (setShowOrtsteile True city_state))) =
     ortsteile_layer city_store (setShowOrtsteile True city_state)"
proof -
  have s: "showGemeinden city_state" "gemeinden city_state \<noteq> None"
    "\<not> showGemeinden (setShowGemeinden False city_state)"
    by (simp_all add: city_state_def initial_state_def setShowGemeinden_def)
  have o: "showOrtsteile (setShowOrtsteile True city_state)"
    "ortsteile (setShowOrtsteile True city_state) \<noteq> None"
    by (simp_all add: city_state_def initial_state_def setShowOrtsteile_def)
  note t = list_follows_gemeinden_toggle [of city_store city_state False False]
  note t' = list_follows_gemeinden_toggle
              [of city_store "setShowGemeinden False city_state" False False]
  note t'' = list_follows_gemeinden_toggle
              [of city_store "setShowOrtsteile True city_state" False False]
  from t s have l1: "gemeinden_layer city_store city_state =
     Some (of_kind Gemeinde (snd (combined city_store city_state)))"
    by simp
  from t' s have l2: "gemeinden_layer city_store (setShowGemeinden False city_state) = None"
    by simp
  from t s(1) have r1: "listItems (fst (combined city_store city_state))
     (setShowGemeinden True (setShowGemeinden False city_state)) =
     listItems city_store city_state"
    and r2: "gemeinden_layer (fst (combined city_store city_state))
     (setShowGemeinden True (setShowGemeinden False city_state)) =
     gemeinden_layer city_store city_state"
    by blast+
  from t'' o have l3: "ortsteile_layer city_store (setShowOrtsteile True city_state) =
     Some (of_kind Ortsteil (snd (combined city_store (setShowOrtsteile True city_state))))"
    by simp
  from t'' o(1) have r3: "ortsteile_layer (fst (combined city_store (setShowOrtsteile True city_state)))
     (setShowOrtsteile True (setShowOrtsteile False (setShowOrtsteile True city_state))) =
     ortsteile_layer city_store (setShowOrtsteile True city_state)"
    by blast
  show ?thesis
    by (rule conjI [OF s(1) conjI [OF city_list_gemeinden_on conjI [OF l1 conjI [OF l2
          conjI [OF city_list_gemeinden_off conjI [OF r1 conjI [OF r2 conjI [OF o(1)
          conjI [OF l3 r3]]]]]]]]])
qed

end
